theory Spec2Isabelle
  imports Main "HOL-Library.Word"
begin

unbundle bit_operations_syntax

section \<open>The IFPS bytecode unit of \<open>refinery/lib/ifps.py\<close>\<close>

text \<open>
  Python integers are unbounded and are modelled as \<open>int\<close>; the bit operations of
  Python on negative integers (infinite two's complement) are those of \<open>int\<close> in HOL:
  \<open>NOT k = - k - 1\<close>, \<open>k AND mask n = k mod 2 ^ n\<close>. Exceptions are values of the type
  \<open>error\<close>, every \<open>raise\<close> of the source is an \<open>Inl\<close> branch. A leading underscore of a
  source name is dropped (\<open>_read_variant\<close> is \<open>read_variant\<close>), a name that clashes with
  HOL gets a suffix.
\<close>

subsection \<open>Variant references\<close>

datatype VariantType = Global | Local | Argument

record Variant =
  index :: int
  type :: VariantType

definition mk_Variant :: "int \<Rightarrow> VariantType \<Rightarrow> Variant" where
  "mk_Variant i t = \<lparr>index = i, type = t\<rparr>"

text \<open>
  \<open>IFPSFile._read_variant\<close>; the first argument is the attribute \<open>self.void\<close> of the unit,
  the only part of \<open>self\<close> that is read.
\<close>

definition read_variant :: "bool \<Rightarrow> int \<Rightarrow> Variant" where
  "read_variant void_flag index0 =
     (if index0 < 0x40000000 then mk_Variant index0 Global
      else let index1 = index0 - 0x60000000 in
        if index1 \<ge> 0 then mk_Variant index1 Local
        else let index2 = (if void_flag then - index1 else NOT index1) in
          mk_Variant index2 Argument)"

subsection \<open>Errors\<close>

text \<open>
  The exceptions the modelled code raises, one constructor for each kind of failure of
  the specification; the Python class is given beside it.
\<close>

datatype error =
    TruncatedHeader        \<comment> \<open>\<open>ValueError\<close>, less than 28 bytes\<close>
  | BadMagic               \<comment> \<open>\<open>ValueError\<close>, invalid magic sequence\<close>
  | UnsupportedVersion int \<comment> \<open>\<open>NotImplementedError\<close>\<close>
  | StackUnderflow int nat int int
      \<comment> \<open>\<open>IndexError\<close> of the stack validation: offset, operand slot, index, depth\<close>
  | IndexOutOfRange        \<comment> \<open>\<open>IndexError\<close>: a key outside the key range, a list index out of range\<close>
  | TypeMismatch           \<comment> \<open>\<open>TypeError\<close>\<close>
  | KeyError
  | ValueError             \<comment> \<open>\<open>ValueError\<close> of a built-in: \<open>max\<close> of nothing, \<open>chr\<close> out of range\<close>
  | AttributeError
  | EOFError               \<comment> \<open>the reader ran out of bytes\<close>

text \<open>
  Subscription \<open>xs[i]\<close> of a list or tuple by an integer: an index from \<open>-len(xs)\<close> up
  to \<open>-1\<close> is taken from the end, an index outside \<open>[-len(xs), len(xs))\<close> raises.
\<close>

definition py_index :: "'a list \<Rightarrow> int \<Rightarrow> error + 'a" where
  "py_index xs i =
     (if 0 \<le> i \<and> i < int (length xs) then Inr (xs ! nat i)
      else if i < 0 \<and> - int (length xs) \<le> i then Inr (xs ! nat (int (length xs) + i))
      else Inl IndexOutOfRange)"

subsection \<open>Type codes and type descriptors\<close>

datatype TC =
    TC_ReturnAddress | TC_U08 | TC_S08 | TC_U16 | TC_S16 | TC_U32 | TC_S32
  | TC_Single | TC_Double | TC_Extended | TC_String | TC_Record | TC_Array
  | TC_Pointer | TC_PChar | TC_ResourcePointer | TC_Variant | TC_S64 | TC_Char
  | TC_WideString | TC_WideChar | TC_ProcPtr | TC_StaticArray | TC_Set
  | TC_Currency | TC_Class | TC_Interface | TC_NotificationVariant
  | TC_UnicodeString | TC_Enum | TC_Type | TC_ExtClass

fun width :: "TC \<Rightarrow> int" where
  "width TC_Variant = 0x10"
| "width TC_Char = 0x01"
| "width TC_S08 = 0x01"
| "width TC_U08 = 0x01"
| "width TC_WideChar = 0x02"
| "width TC_S16 = 0x02"
| "width TC_U16 = 0x02"
| "width TC_WideString = 0x04"
| "width TC_UnicodeString = 0x04"
| "width TC_Interface = 0x04"
| "width TC_Class = 0x04"
| "width TC_PChar = 0x04"
| "width TC_String = 0x04"
| "width TC_Single = 0x04"
| "width TC_S32 = 0x04"
| "width TC_U32 = 0x04"
| "width TC_ProcPtr = 0x0C"
| "width TC_Currency = 0x08"
| "width TC_Pointer = 0x0C"
| "width TC_Double = 0x08"
| "width TC_S64 = 0x08"
| "width TC_Extended = 0x0A"
| "width TC_ReturnAddress = 0x1C"
| "width _ = 0"

text \<open>
  \<open>DeclSpecParam\<close> is the pair of the input flag and the optional type. The type
  descriptors are the subclasses of \<open>IFPSType\<close>, each with the field \<open>code\<close> of the
  base class first. The display metadata of the mixin (\<open>symbol\<close>, \<open>attributes\<close>) is
  left out: no operation modelled here reads it.
\<close>

datatype 't DeclSpecParam_of = DeclSpecParam (input: bool) (ptype: "'t option")

datatype IFPSType =
    TPrimitive (code: TC)
  | TProcPtr (code: TC) (returns: bool) (args: "IFPSType DeclSpecParam_of list")
  | TInterface (code: TC) (uuid: "128 word")
  | TClass (code: TC) (cname: string)
  | TSet (code: TC) (tsize: int)
  | TArray (code: TC) (elem: IFPSType)
  | TStaticArray (code: TC) (elem: IFPSType) (tsize: int) (toffset: "int option")
  | TRecord (code: TC) (members: "IFPSType list")

type_synonym DeclSpecParam = "IFPSType DeclSpecParam_of"

definition container :: "IFPSType \<Rightarrow> bool" where
  "container t = (code t \<in> {TC_StaticArray, TC_Array, TC_Record})"

subsection \<open>Python values\<close>

text \<open>
  The values a variable cell stores. A \<open>str\<close> is its list of code points, a \<open>float\<close> its
  IEEE-754 bit pattern (no arithmetic is done on it here), \<open>PyValue\<close> is a \<open>Value\<close>
  object (type and payload), \<open>PyDict\<close> a dictionary keyed by \<open>Optional[int]\<close> in
  insertion order. Instances of \<open>Variable\<close> as values (pointers) are not modelled.
\<close>

datatype pyval =
    PyNone
  | PyBool bool
  | PyInt int
  | PyFloat "64 word"
  | PyStr "nat list"
  | PyUUID "128 word"
  | PyType IFPSType
  | PyValue IFPSType pyval
  | PyList "pyval list"
  | PyDict "(int option \<times> pyval) list"

datatype pyclass = C_int | C_float | C_str | C_Variable | C_IFPSType | C_UUID

text \<open>\<open>isinstance(value, t)\<close>; \<open>bool\<close> is a subclass of \<open>int\<close>.\<close>

fun isinstance :: "pyval \<Rightarrow> pyclass \<Rightarrow> bool" where
  "isinstance (PyBool _) C_int = True"
| "isinstance (PyInt _) C_int = True"
| "isinstance (PyFloat _) C_float = True"
| "isinstance (PyStr _) C_str = True"
| "isinstance (PyUUID _) C_UUID = True"
| "isinstance (PyType _) C_IFPSType = True"
| "isinstance _ _ = False"

text \<open>The integer behind an instance of \<open>int\<close>.\<close>

fun as_int :: "pyval \<Rightarrow> int option" where
  "as_int (PyInt v) = Some v"
| "as_int (PyBool b) = Some (if b then 1 else 0)"
| "as_int _ = None"

text \<open>Dictionaries in insertion order: a store to a present key keeps its place.\<close>

fun dict_set :: "('k \<times> 'v) list \<Rightarrow> 'k \<Rightarrow> 'v \<Rightarrow> ('k \<times> 'v) list" where
  "dict_set [] k v = [(k, v)]"
| "dict_set ((k', v') # kvs) k v =
     (if k' = k then (k, v) # kvs else (k', v') # dict_set kvs k v)"

definition dict_get :: "('k \<times> 'v) list \<Rightarrow> 'k \<Rightarrow> 'v option" where
  "dict_get kvs k = map_of kvs k"

definition dict_del :: "('k \<times> 'v) list \<Rightarrow> 'k \<Rightarrow> ('k \<times> 'v) list" where
  "dict_del kvs k = filter (\<lambda>kv. fst kv \<noteq> k) kvs"

subsection \<open>Defaults and Python classes of the type descriptors\<close>

text \<open>The table of \<open>TPrimitive.py_type\<close>; \<open>None\<close> for a code that is not in it.\<close>

fun prim_py_type :: "TC \<Rightarrow> pyclass option" where
  "prim_py_type TC_ReturnAddress = Some C_int"
| "prim_py_type TC_U08 = Some C_int"
| "prim_py_type TC_S08 = Some C_int"
| "prim_py_type TC_U16 = Some C_int"
| "prim_py_type TC_S16 = Some C_int"
| "prim_py_type TC_U32 = Some C_int"
| "prim_py_type TC_S32 = Some C_int"
| "prim_py_type TC_Single = Some C_float"
| "prim_py_type TC_Double = Some C_float"
| "prim_py_type TC_Extended = Some C_float"
| "prim_py_type TC_String = Some C_str"
| "prim_py_type TC_Pointer = Some C_Variable"
| "prim_py_type TC_PChar = Some C_str"
| "prim_py_type TC_ResourcePointer = Some C_Variable"
| "prim_py_type TC_Variant = Some C_Variable"
| "prim_py_type TC_S64 = Some C_int"
| "prim_py_type TC_Char = Some C_str"
| "prim_py_type TC_WideString = Some C_str"
| "prim_py_type TC_WideChar = Some C_str"
| "prim_py_type TC_Currency = Some C_float"
| "prim_py_type TC_UnicodeString = Some C_str"
| "prim_py_type TC_Enum = Some C_int"
| "prim_py_type TC_Type = Some C_IFPSType"
| "prim_py_type _ = None"

text \<open>
  \<open>t.py_type()\<close> and \<open>t.default()\<close> called with no argument, as the array types call
  them on their element type. \<open>TRecord\<close> asks for a key: without one the call is a
  \<open>TypeError\<close>. \<open>TPrimitive.default\<close> hands \<open>py_type()\<close> to \<open>issubclass\<close>, which raises
  \<open>TypeError\<close> when that is \<open>None\<close>.
\<close>

fun py_type0 :: "IFPSType \<Rightarrow> error + pyclass option" where
  "py_type0 (TPrimitive c) = Inr (prim_py_type c)"
| "py_type0 (TProcPtr c r a) = Inr None"
| "py_type0 (TInterface c u) = Inr (Some C_UUID)"
| "py_type0 (TClass c n) = Inr None"
| "py_type0 (TSet c n) = Inr (Some C_int)"
| "py_type0 (TArray c e) = py_type0 e"
| "py_type0 (TStaticArray c e n off) = py_type0 e"
| "py_type0 (TRecord c ms) = Inl TypeMismatch"

fun default0 :: "IFPSType \<Rightarrow> error + pyval" where
  "default0 (TPrimitive c) =
     (case prim_py_type c of
        None \<Rightarrow> Inl TypeMismatch
      | Some C_int \<Rightarrow> Inr (PyInt 0)
      | Some C_float \<Rightarrow> Inr (PyFloat 0)
      | Some C_str \<Rightarrow> Inr (PyStr [])
      | Some _ \<Rightarrow> Inr PyNone)"
| "default0 (TProcPtr c r a) = Inr PyNone"
| "default0 (TInterface c u) = Inr (PyUUID 0)"
| "default0 (TClass c n) = Inr PyNone"
| "default0 (TSet c n) = Inr (PyInt 0)"
| "default0 (TArray c e) = default0 e"
| "default0 (TStaticArray c e n off) = default0 e"
| "default0 (TRecord c ms) = Inl TypeMismatch"

text \<open>\<open>t.py_type(key)\<close> and \<open>t.default(k)\<close>: only \<open>TRecord\<close> looks at the argument.\<close>

definition py_type :: "IFPSType \<Rightarrow> int option \<Rightarrow> error + pyclass option" where
  "py_type t key =
     (case t of
        TRecord c ms \<Rightarrow>
          (case key of
             None \<Rightarrow> Inl TypeMismatch
           | Some k \<Rightarrow> (case py_index ms k of Inl e \<Rightarrow> Inl e | Inr m \<Rightarrow> py_type0 m))
      | _ \<Rightarrow> py_type0 t)"

definition default_at :: "IFPSType \<Rightarrow> int \<Rightarrow> error + pyval" where
  "default_at t k =
     (case t of
        TRecord c ms \<Rightarrow> (case py_index ms k of Inl e \<Rightarrow> Inl e | Inr m \<Rightarrow> default0 m)
      | _ \<Rightarrow> default0 t)"

text \<open>\<open>self.type.size\<close>: an attribute of \<open>TSet\<close> and \<open>TStaticArray\<close> only.\<close>

fun type_size :: "IFPSType \<Rightarrow> int option" where
  "type_size (TSet c n) = Some n"
| "type_size (TStaticArray c e n off) = Some n"
| "type_size _ = None"

subsection \<open>Variable cells\<close>

text \<open>
  \<open>_keyrange\<close> is \<open>range(n)\<close> or the set \<open>{None}\<close>. Of the three attributes \<open>_int_mask\<close>,
  \<open>_int_bits\<close> and \<open>_int_good\<close>, \<open>None\<close> stands for the values \<open>NoMask\<close>, \<open>INF\<close> and \<open>AST\<close>
  they get when the cell is no fixed-width integer; \<open>_wrap\<close> does not read them then.
  \<open>_int_good\<close> is \<open>range(lo, hi)\<close>. The attribute \<open>data\<close> starts as a dictionary and is
  whatever was last stored in it.
\<close>

datatype keyrange = KeyRange int | KeyNone

fun in_keyrange :: "int option \<Rightarrow> keyrange \<Rightarrow> bool" where
  "in_keyrange (Some k) (KeyRange n) = (0 \<le> k \<and> k < n)"
| "in_keyrange None KeyNone = True"
| "in_keyrange _ _ = False"

record Variable =
  type :: IFPSType
  spec :: "Variant + string"
  data :: pyval
  keyrange :: keyrange
  int_size :: int
  int_bits :: "int option"
  int_mask :: "int option"
  int_good :: "(int \<times> int) option"

text \<open>The sign table of \<open>Variable.__init__\<close>, with its default 0.\<close>

fun int_sign :: "TC \<Rightarrow> int" where
  "int_sign TC_U08 = 1"
| "int_sign TC_U16 = 1"
| "int_sign TC_U32 = 1"
| "int_sign TC_S08 = - 1"
| "int_sign TC_S16 = - 1"
| "int_sign TC_S32 = - 1"
| "int_sign TC_S64 = - 1"
| "int_sign _ = 0"

definition Variable_init :: "IFPSType \<Rightarrow> Variant + string \<Rightarrow> error + Variable" where
  "Variable_init ty sp =
     (case (if \<not> container ty then default0 ty else Inr PyNone) of
        Inl e \<Rightarrow> Inl e
      | Inr dflt \<Rightarrow>
          let data0 = (if \<not> container ty \<and> dflt \<noteq> PyNone then [(None, dflt)] else []);
              kr = (case ty of
                      TRecord c ms \<Rightarrow> KeyRange (int (length ms))
                    | TArray c e \<Rightarrow> KeyRange 0x100000000
                    | TStaticArray c e n off \<Rightarrow> KeyRange n
                    | _ \<Rightarrow> KeyNone);
              sz = int_sign (code ty) * width (code ty);
              bits = \<bar>sz\<bar> * 8;
              umax = push_bit (nat bits) (1 :: int)
          in Inr \<lparr>Variable.type = ty, spec = sp, data = PyDict data0, keyrange = kr, int_size = sz,
                  int_bits = (if sz \<noteq> 0 then Some bits else None),
                  int_mask = (if sz \<noteq> 0 then Some (umax - 1) else None),
                  int_good = (if sz \<noteq> 0
                              then (if sz < 0 then Some (- drop_bit 1 umax, drop_bit 1 umax)
                                    else Some (0, umax))
                              else None)\<rparr>)"

text \<open>
  \<open>Variable._wrap\<close>. The source writes
  \<^verbatim>\<open>if s := self._int_size and value not in self._int_good:\<close>
  where \<open>:=\<close> binds weaker than \<open>and\<close>: \<open>s\<close> is the value of the whole conjunction, that
  is \<open>_int_size\<close> when that is 0 and otherwise the truth value of the range test (1 or 0
  as an integer). Only instances of \<open>int\<close> and \<open>None\<close> reach \<open>_wrap\<close> in a fixed-width
  integer cell (\<open>_cast\<close> lets nothing else through); \<open>None & mask\<close> is a \<open>TypeError\<close>.
\<close>

definition in_good :: "pyval \<Rightarrow> (int \<times> int) option \<Rightarrow> bool" where
  "in_good v good =
     (case good of
        None \<Rightarrow> True
      | Some (lo, hi) \<Rightarrow> (case as_int v of None \<Rightarrow> False | Some i \<Rightarrow> lo \<le> i \<and> i < hi))"

definition wrap :: "Variable \<Rightarrow> pyval \<Rightarrow> error + pyval" where
  "wrap self v =
     (let s = (if int_size self = 0 then int_size self
               else if \<not> in_good v (int_good self) then 1 else 0)
      in if s \<noteq> 0 then
           (case (as_int v, int_mask self, int_bits self) of
              (Some i, Some msk, Some bits) \<Rightarrow>
                (let i1 = i AND msk
                 in if s < 0 \<and> drop_bit (nat (bits - 1)) i1 \<noteq> 0
                    then Inr (PyInt (- ((- i1) AND msk)))
                    else Inr (PyInt i1))
            | _ \<Rightarrow> Inl TypeMismatch)
         else Inr v)"

text \<open>
  \<open>Variable._cast(key, value)\<close>; a call without value is the call with \<open>None\<close>, and the
  result is \<open>None\<close> then.
\<close>

definition cast :: "Variable \<Rightarrow> int option \<Rightarrow> pyval \<Rightarrow> error + pyval" where
  "cast self key v =
     (if \<not> in_keyrange key (keyrange self) then Inl IndexOutOfRange
      else if v = PyNone then Inr PyNone
      else
        let v1 = (case v of PyValue t payload \<Rightarrow> payload | _ \<Rightarrow> v)
        in case py_type (Variable.type self) key of
             Inl e \<Rightarrow> Inl e
           | Inr None \<Rightarrow> Inr v1
           | Inr (Some t) \<Rightarrow>
               if \<not> isinstance v1 t then
                 (case (t, v1) of
                    (C_int, PyStr [c]) \<Rightarrow> Inr (PyInt (int c))
                  | (C_str, PyInt i) \<Rightarrow>
                      if 0 \<le> i \<and> i < 0x110000 then Inr (PyStr [nat i]) else Inl ValueError
                  | (C_str, PyBool b) \<Rightarrow> Inr (PyStr [if b then 1 else 0])
                  | _ \<Rightarrow> Inl TypeMismatch)
               else Inr v1)"

text \<open>
  \<open>Variable.set\<close>. \<open>set_item\<close> is the body below the first \<open>if\<close> (a set cell, or a single
  slot); the first \<open>if\<close> itself, for an unkeyed container, calls \<open>set\<close> again with each
  key \<open>k\<close> of the enumeration, which is not \<open>None\<close> and so reaches \<open>set_item\<close>.
\<close>

definition set_item :: "Variable \<Rightarrow> pyval \<Rightarrow> int option \<Rightarrow> error + Variable" where
  "set_item self v key =
     (if code (Variable.type self) = TC_Set then
        (case key of
           None \<Rightarrow>
             (let v1 = (case v of PyValue t payload \<Rightarrow> payload | _ \<Rightarrow> v)
              in if \<not> isinstance v1 C_int then Inl TypeMismatch
                 else Inr (self\<lparr>data := v1\<rparr>))
         | Some k \<Rightarrow>
             (case v of
                PyBool b \<Rightarrow>
                  (case type_size (Variable.type self) of
                     None \<Rightarrow> Inl AttributeError
                   | Some n \<Rightarrow>
                       if \<not> (0 \<le> k \<and> k < n) then Inl IndexOutOfRange
                       else if b then
                         (case as_int (data self) of
                            None \<Rightarrow> Inl TypeMismatch
                          | Some d \<Rightarrow> Inr (self\<lparr>data := PyInt (d OR push_bit (nat k) 1)\<rparr>))
                       else
                         (case as_int (data self) of
                            None \<Rightarrow> Inl TypeMismatch
                          | Some d \<Rightarrow>
                              if drop_bit (nat k) d AND 1 \<noteq> 0
                              then Inr (self\<lparr>data := PyInt (d XOR push_bit (nat k) 1)\<rparr>)
                              else Inr self))
              | _ \<Rightarrow> Inl TypeMismatch))
      else
        (case cast self key v of
           Inl e \<Rightarrow> Inl e
         | Inr c \<Rightarrow>
             (case wrap self c of
                Inl e \<Rightarrow> Inl e
              | Inr w \<Rightarrow>
                  (case data self of
                     PyDict d \<Rightarrow> Inr (self\<lparr>data := PyDict (dict_set d key w)\<rparr>)
                   | _ \<Rightarrow> Inl TypeMismatch))))"

fun set_all :: "Variable \<Rightarrow> int \<Rightarrow> pyval list \<Rightarrow> error + Variable" where
  "set_all self k [] = Inr self"
| "set_all self k (x # xs) =
     (case set_item self x (Some k) of Inl e \<Rightarrow> Inl e | Inr self' \<Rightarrow> set_all self' (k + 1) xs)"

text \<open>\<open>iter(value)\<close> for the values that can be iterated.\<close>

fun py_iter :: "pyval \<Rightarrow> pyval list option" where
  "py_iter (PyList xs) = Some xs"
| "py_iter (PyStr cs) = Some (map (\<lambda>c. PyStr [c]) cs)"
| "py_iter (PyValue t payload) = Some [PyType t, payload]"
| "py_iter (PyDict d) =
     Some (map (\<lambda>kv. case fst kv of None \<Rightarrow> PyNone | Some k \<Rightarrow> PyInt k) d)"
| "py_iter _ = None"

definition Variable_set :: "Variable \<Rightarrow> pyval \<Rightarrow> int option \<Rightarrow> error + Variable" where
  "Variable_set self v key =
     (if key = None \<and> container (Variable.type self) then
        (case py_iter v of None \<Rightarrow> Inl TypeMismatch | Some xs \<Rightarrow> set_all self 0 xs)
      else set_item self v key)"

text \<open>
  \<open>Variable.get\<close>. For an unkeyed container, \<open>max(data)\<close> is the greatest key (a
  \<open>ValueError\<close> when there is none) and the list comprehension runs over
  \<open>range(size)\<close> with \<open>size = max(data)\<close>, evaluating \<open>type.default(k)\<close> before each lookup.
\<close>

definition max_key :: "(int option \<times> pyval) list \<Rightarrow> error + int" where
  "max_key d =
     (if d = [] then Inl ValueError
      else if None \<in> set (map fst d) then Inl TypeMismatch
      else Inr (Max (set (map (\<lambda>kv. the (fst kv)) d))))"

fun dense :: "IFPSType \<Rightarrow> (int option \<times> pyval) list \<Rightarrow> int list \<Rightarrow> error + pyval list" where
  "dense ty d [] = Inr []"
| "dense ty d (k # ks) =
     (case default_at ty k of
        Inl e \<Rightarrow> Inl e
      | Inr dflt \<Rightarrow>
          (case dense ty d ks of
             Inl e \<Rightarrow> Inl e
           | Inr rest \<Rightarrow> Inr ((case dict_get d (Some k) of Some x \<Rightarrow> x | None \<Rightarrow> dflt) # rest)))"

definition Variable_get :: "Variable \<Rightarrow> int option \<Rightarrow> error + pyval" where
  "Variable_get self key =
     (if key = None \<and> container (Variable.type self) then
        (case data self of
           PyDict d \<Rightarrow>
             (case max_key d of
                Inl e \<Rightarrow> Inl e
              | Inr mx \<Rightarrow>
                  (case dense (Variable.type self) d [0 .. mx - 1] of
                     Inl e \<Rightarrow> Inl e
                   | Inr xs \<Rightarrow> Inr (PyList xs)))
         | _ \<Rightarrow> Inl TypeMismatch)
      else if code (Variable.type self) = TC_Set then
        (case key of
           None \<Rightarrow> Inr (data self)
         | Some k \<Rightarrow>
             (case type_size (Variable.type self) of
                None \<Rightarrow> Inl AttributeError
              | Some n \<Rightarrow>
                  if \<not> (0 \<le> k \<and> k < n) then Inl IndexOutOfRange
                  else (case as_int (data self) of
                          None \<Rightarrow> Inl TypeMismatch
                        | Some d \<Rightarrow> Inr (PyBool (drop_bit (nat k) d AND 1 \<noteq> 0)))))
      else
        (case cast self key PyNone of
           Inl e \<Rightarrow> Inl e
         | Inr _ \<Rightarrow>
             (case data self of
                PyDict d \<Rightarrow> (case dict_get d key of None \<Rightarrow> Inl KeyError | Some x \<Rightarrow> Inr x)
              | _ \<Rightarrow> Inl TypeMismatch)))"

text \<open>
  Drivers for the cells: a cell constructed as \<open>Variable(ty, spec)\<close> (the \<open>spec\<close> is only
  displayed), then \<open>set(v)\<close> and \<open>get()\<close>; \<open>set(v, k)\<close> for the keys \<open>k = 0, 1, \<dots>\<close> in
  turn and \<open>get()\<close>; one \<open>set(v, key)\<close> on the new cell.
\<close>

definition fresh :: "IFPSType \<Rightarrow> error + Variable" where
  "fresh ty = Variable_init ty (Inl (mk_Variant 0 Global))"

definition assign_read :: "IFPSType \<Rightarrow> pyval \<Rightarrow> error + pyval" where
  "assign_read ty v =
     (case fresh ty of
        Inl e \<Rightarrow> Inl e
      | Inr c \<Rightarrow>
          (case Variable_set c v None of Inl e \<Rightarrow> Inl e | Inr c' \<Rightarrow> Variable_get c' None))"

fun set_keys :: "Variable \<Rightarrow> int \<Rightarrow> pyval list \<Rightarrow> error + Variable" where
  "set_keys c k [] = Inr c"
| "set_keys c k (v # vs) =
     (case Variable_set c v (Some k) of Inl e \<Rightarrow> Inl e | Inr c' \<Rightarrow> set_keys c' (k + 1) vs)"

definition set_keys_read :: "IFPSType \<Rightarrow> pyval list \<Rightarrow> error + pyval" where
  "set_keys_read ty vs =
     (case fresh ty of
        Inl e \<Rightarrow> Inl e
      | Inr c \<Rightarrow> (case set_keys c 0 vs of Inl e \<Rightarrow> Inl e | Inr c' \<Rightarrow> Variable_get c' None))"

definition fresh_set :: "IFPSType \<Rightarrow> pyval \<Rightarrow> int option \<Rightarrow> error + Variable" where
  "fresh_set ty v key =
     (case fresh ty of Inl e \<Rightarrow> Inl e | Inr c \<Rightarrow> Variable_set c v key)"

subsection \<open>Declarations of exported internal functions\<close>

record DeclSpec =
  void :: bool
  parameters :: "DeclSpecParam list"
  name :: string
  calling_convention :: "string option"
  return_type :: "IFPSType option"
  module :: "string option"
  classname :: "string option"
  delay_load :: bool
  vtable_index :: "int option"
  load_with_altered_search_path :: bool
  is_property :: bool

text \<open>
  The constructor call \<open>cls(void, parameters, return_type=return_type)\<close>: the other
  fields take the defaults of the dataclass.
\<close>

definition mk_DeclSpec :: "bool \<Rightarrow> DeclSpecParam list \<Rightarrow> IFPSType option \<Rightarrow> DeclSpec" where
  "mk_DeclSpec v ps rt =
     \<lparr>void = v, parameters = ps, name = [], calling_convention = None, return_type = rt,
      module = None, classname = None, delay_load = False, vtable_index = None,
      load_with_altered_search_path = False, is_property = False\<rparr>"

text \<open>
  Byte strings are lists of \<open>char\<close> (a \<open>char\<close> is a byte). \<open>split sep data\<close> is
  \<open>data.split(sep)\<close> for a separator of one byte: one token more than there are
  separators, empty tokens included.
\<close>

fun split :: "char \<Rightarrow> string \<Rightarrow> string list" where
  "split sep [] = [[]]"
| "split sep (c # cs) =
     (if c = sep then [] # split sep cs
      else (case split sep cs of [] \<Rightarrow> [[c]] | t # ts \<Rightarrow> (c # t) # ts))"

text \<open>
  \<open>int(b)\<close> for a byte string \<open>b\<close>, base 10, as CPython converts it: white space is
  stripped at both ends, then comes an optional sign and one or more decimal digits, in
  which single underscores may separate digits. \<open>None\<close> stands for the \<open>ValueError\<close>
  (the limit that recent versions put on the number of digits is not modelled).
\<close>

definition is_space :: "char \<Rightarrow> bool" where
  "is_space c = (c \<in> {CHR '' '', CHR 0x09, CHR 0x0A, CHR 0x0B, CHR 0x0C, CHR 0x0D})"

definition digit_of :: "char \<Rightarrow> int option" where
  "digit_of c =
     (let n = (of_char c :: nat) in if 48 \<le> n \<and> n \<le> 57 then Some (int n - 48) else None)"

fun digits :: "int \<Rightarrow> string \<Rightarrow> int option" where
  "digits acc [] = Some acc"
| "digits acc [c] = (case digit_of c of None \<Rightarrow> None | Some n \<Rightarrow> Some (acc * 10 + n))"
| "digits acc (c # d # ds) =
     (if c = CHR ''_'' then
        (case digit_of d of None \<Rightarrow> None | Some n \<Rightarrow> digits (acc * 10 + n) ds)
      else (case digit_of c of None \<Rightarrow> None | Some n \<Rightarrow> digits (acc * 10 + n) (d # ds)))"

definition py_int :: "string \<Rightarrow> int option" where
  "py_int b =
     (let t = rev (dropWhile is_space (rev (dropWhile is_space b)));
          sgn_body = (case t of
                        c # r \<Rightarrow> if c = CHR ''+'' then (1, r)
                                 else if c = CHR ''-'' then (- 1, r) else (1, t)
                      | [] \<Rightarrow> (1, t))
      in case snd sgn_body of
           [] \<Rightarrow> None
         | c # cs \<Rightarrow>
             (case digit_of c of
                None \<Rightarrow> None
              | Some n \<Rightarrow> map_option (\<lambda>v. fst sgn_body * v) (digits n cs)))"

text \<open>
  \<open>DeclSpec.ParseE(data, ipfs)\<close>; of the unit only the type table \<open>ipfs.types\<close> is read.
  The loop over the remaining tokens is \<open>ParseE_parameters\<close>: \<open>int(param[1:])\<close> is inside
  the \<open>try\<close>, the lookup \<open>ipfs.types[i]\<close> is not, so an index outside the table ends the
  parse with its \<open>IndexError\<close>.
\<close>

fun ParseE_parameters :: "IFPSType list \<Rightarrow> string list \<Rightarrow> error + DeclSpecParam list" where
  "ParseE_parameters types [] = Inr []"
| "ParseE_parameters types (param # decl) =
     (case (case py_int (drop 1 param) of
              None \<Rightarrow> Inr None
            | Some i \<Rightarrow> (case py_index types i of Inl e \<Rightarrow> Inl e | Inr t \<Rightarrow> Inr (Some t))) of
        Inl e \<Rightarrow> Inl e
      | Inr tv \<Rightarrow>
          (case ParseE_parameters types decl of
             Inl e \<Rightarrow> Inl e
           | Inr ps \<Rightarrow> Inr (DeclSpecParam (take 1 param = ''@'') tv # ps)))"

definition ParseE :: "string \<Rightarrow> IFPSType list \<Rightarrow> error + DeclSpec" where
  "ParseE bytes types =
     (let decl = split CHR '' '' bytes;
          first = (case decl of [] \<Rightarrow> None | tok # _ \<Rightarrow> py_int tok);
          is_void = (case first of None \<Rightarrow> True | Some r \<Rightarrow> r < 0)
      in case (case first of
                 None \<Rightarrow> Inr None
               | Some r \<Rightarrow>
                   if \<not> is_void
                   then (case py_index types r of Inl e \<Rightarrow> Inl e | Inr t \<Rightarrow> Inr (Some t))
                   else Inr None) of
           Inl e \<Rightarrow> Inl e
         | Inr rt \<Rightarrow>
             (case ParseE_parameters types (tl decl) of
                Inl e \<Rightarrow> Inl e
              | Inr ps \<Rightarrow> Inr (mk_DeclSpec is_void ps rt)))"

subsection \<open>The byte reader and the header of the unit\<close>

text \<open>
  Modelled from the spec: the byte reader \<open>StructReader\<close> of \<open>refinery.lib.structures\<close>
  is not among the sources. Section 4.A gives its contract: a cursor over a byte
  range, \<open>remaining_bytes\<close>, a raw slice of \<open>N\<close> bytes, unsigned little-endian integers.
  A read past the end is taken to fail (\<open>EOFError\<close>); the header is read only when 28
  bytes are there.
\<close>

record StructReader =
  buffer :: "8 word list"
  pos :: nat

definition remaining_bytes :: "StructReader \<Rightarrow> nat" where
  "remaining_bytes r = length (buffer r) - pos r"

definition read :: "StructReader \<Rightarrow> nat \<Rightarrow> error + (8 word list \<times> StructReader)" where
  "read r n =
     (if remaining_bytes r < n then Inl EOFError
      else Inr (take n (drop (pos r) (buffer r)), r\<lparr>pos := pos r + n\<rparr>))"

fun le_value :: "8 word list \<Rightarrow> int" where
  "le_value [] = 0"
| "le_value (b # bs) = uint b + 256 * le_value bs"

definition u32 :: "StructReader \<Rightarrow> error + (int \<times> StructReader)" where
  "u32 r = (case read r 4 of Inl e \<Rightarrow> Inl e | Inr (bs, r') \<Rightarrow> Inr (le_value bs, r'))"

text \<open>
  \<open>IFPSFile.__init__\<close> up to the three loaders \<open>_load_types\<close>, \<open>_load_functions\<close> and
  \<open>_load_variables\<close>, which run after the last check below: the attributes that the
  header sets, and the reader behind the header.
\<close>

record IFPSFile =
  version :: int
  count_types :: int
  count_functions :: int
  count_variables :: int
  entry :: int
  import_size :: int
  unit_void :: bool

definition MinVer :: int where "MinVer = 12"
definition MaxVer :: int where "MaxVer = 23"
definition Magic :: "8 word list" where "Magic = [0x49, 0x46, 0x50, 0x53]"

definition IFPSFile_init :: "StructReader \<Rightarrow> error + (IFPSFile \<times> StructReader)" where
  "IFPSFile_init reader =
     (if remaining_bytes reader < 28 then Inl TruncatedHeader
      else case read reader 4 of Inl e \<Rightarrow> Inl e | Inr (magic, r0) \<Rightarrow>
        if magic \<noteq> Magic then Inl BadMagic
        else case u32 r0 of Inl e \<Rightarrow> Inl e | Inr (ver, r1) \<Rightarrow>
             case u32 r1 of Inl e \<Rightarrow> Inl e | Inr (ctypes, r2) \<Rightarrow>
             case u32 r2 of Inl e \<Rightarrow> Inl e | Inr (cfunctions, r3) \<Rightarrow>
             case u32 r3 of Inl e \<Rightarrow> Inl e | Inr (cvariables, r4) \<Rightarrow>
             case u32 r4 of Inl e \<Rightarrow> Inl e | Inr (ent, r5) \<Rightarrow>
             case u32 r5 of Inl e \<Rightarrow> Inl e | Inr (isize, r6) \<Rightarrow>
               if \<not> (MinVer \<le> ver \<and> ver < MaxVer + 1) then Inl (UnsupportedVersion ver)
               else Inr (\<lparr>version = ver, count_types = ctypes, count_functions = cfunctions,
                           count_variables = cvariables, entry = ent, import_size = isize,
                           unit_void = False\<rparr>, r6))"

subsection \<open>Instructions\<close>

datatype Op =
    Op_Assign | Op_Calculate | Op_Push | Op_PushVar | Op_Pop | Op_Call | Op_Jump
  | Op_JumpTrue | Op_JumpFalse | Op_Ret | Op_StackType | Op_PushType | Op_Compare
  | Op_CallVar | Op_SetPtr | Op_BooleanNot | Op_Neg | Op_SetFlag | Op_JumpFlag
  | Op_PushEH | Op_PopEH | Op_IntegerNot | Op_SetCopyPtr | Op_Inc | Op_Dec
  | Op_JumpPop1 | Op_JumpPop2 | Op_Nop | Op_INVALID

datatype AOp =
    AOp_Add | AOp_Sub | AOp_Mul | AOp_Div | AOp_Mod | AOp_Shl | AOp_Shr | AOp_And
  | AOp_BOr | AOp_Xor

datatype COp = COp_GE | COp_LE | COp_GT | COp_LT | COp_NE | COp_EQ | COp_IN | COp_IS

datatype OperandType = OT_Variant | OT_Value | OT_IndexedByInt | OT_IndexedByVar

text \<open>
  An \<open>Operand\<close> has the optional fields \<open>variant\<close>, \<open>value\<close> (a \<open>Value\<close>: type and
  payload; the field is \<open>val\<close> here) and \<open>index\<close> (a \<open>Variant\<close> for \<open>IndexedByVar\<close>, an integer for
  \<open>IndexedByInt\<close>).
\<close>

record Operand =
  type :: OperandType
  variant :: "Variant option"
  val :: "(IFPSType \<times> pyval) option"
  index :: "(Variant + int) option"

text \<open>
  What the decoder stores in the list \<open>operands\<close> of an instruction: integers (jump
  targets, raw indices), booleans, \<open>None\<close> (an absent handler of \<open>PushEH\<close>), operands,
  the variant and type of \<open>StackType\<close> and \<open>PushType\<close>, and for a resolved \<open>Call\<close> the
  function, given here by its position in the function table.
\<close>

datatype arg =
    ArgInt int
  | ArgBool bool
  | ArgNone
  | ArgOperand Operand
  | ArgVariant Variant
  | ArgType IFPSType
  | ArgFunction nat

record Instruction =
  offset :: int
  opcode :: Op
  size :: int
  stack :: "int option"
  operands :: "arg list"
  operator :: "(AOp + COp) option"
  jumptarget :: bool

definition branches :: "Instruction \<Rightarrow> bool" where
  "branches insn =
     (opcode insn \<in> {Op_Jump, Op_JumpFalse, Op_JumpTrue, Op_JumpFlag, Op_JumpPop1, Op_JumpPop2})"

definition jumps :: "Instruction \<Rightarrow> bool" where
  "jumps insn = (opcode insn \<in> {Op_Jump, Op_JumpPop1, Op_JumpPop2})"

fun Op_StackD :: "Op \<Rightarrow> int" where
  "Op_StackD Op_Push = 1"
| "Op_StackD Op_PushVar = 1"
| "Op_StackD Op_PushType = 1"
| "Op_StackD Op_Pop = - 1"
| "Op_StackD Op_JumpPop1 = - 1"
| "Op_StackD Op_JumpPop2 = - 2"
| "Op_StackD _ = 0"

definition stack_delta :: "Instruction \<Rightarrow> int" where
  "stack_delta insn = Op_StackD (opcode insn)"

subsection \<open>Basic blocks and functions\<close>

text \<open>
  Objects that the source shares by reference are named here by a stable key. The
  instructions of a function are named by their position in \<open>self.body\<close>: a block's
  \<open>body\<close> is the list of these positions, so that the depth written to an instruction
  through its block is the one read back through \<open>self.body\<close>. A block is named by its
  offset, which is its key in the block map (a block is only ever created under its own
  offset, and none is removed before the walk is over): \<open>sources\<close> and \<open>targets\<close> are the
  keys of these two dictionaries, in insertion order.
\<close>

record BasicBlock =
  offset :: int
  stack :: "int option"
  body :: "nat list"
  sources :: "int list"
  targets :: "int list"

definition mk_BasicBlock :: "int \<Rightarrow> BasicBlock" where
  "mk_BasicBlock off =
     \<lparr>BasicBlock.offset = off, stack = None, body = [], sources = [], targets = []\<rparr>"

type_synonym blockmap = "(int \<times> BasicBlock) list"

text \<open>An \<open>Attribute\<close> is a name with its tuple \<open>fields\<close> of \<open>Value\<close> objects.\<close>

record Attribute =
  name :: string
  attr_fields :: "(IFPSType \<times> pyval) list"

text \<open>
  The two last fields of a \<open>Function\<close> hold whatever object the constructor is given:
  \<open>None\<close>, a boolean, a list of attributes or a block map.
\<close>

datatype obj =
    ObjNone
  | ObjBool bool
  | ObjAttributes "Attribute list"
  | ObjBlocks blockmap

record Function =
  name :: string
  decl :: "DeclSpec option"
  body :: "Instruction list option"
  attributes :: obj
  bbs :: obj

text \<open>The constructor of the dataclass, with its five fields in their order.\<close>

definition mk_Function ::
  "string \<Rightarrow> DeclSpec option \<Rightarrow> Instruction list option \<Rightarrow> obj \<Rightarrow> obj \<Rightarrow> Function" where
  "mk_Function n d b a c = \<lparr>Function.name = n, decl = d, body = b, attributes = a, bbs = c\<rparr>"

text \<open>Stores into the dictionaries \<open>sources\<close> and \<open>targets\<close>, and updates of a block.\<close>

definition keys_add :: "int list \<Rightarrow> int \<Rightarrow> int list" where
  "keys_add ks k = (if k \<in> set ks then ks else ks @ [k])"

definition update_block :: "blockmap \<Rightarrow> int \<Rightarrow> (BasicBlock \<Rightarrow> BasicBlock) \<Rightarrow> blockmap" where
  "update_block m k f = map (\<lambda>kb. if fst kb = k then (fst kb, f (snd kb)) else kb) m"

definition add_target :: "blockmap \<Rightarrow> int \<Rightarrow> int \<Rightarrow> blockmap" where
  "add_target m b t = update_block m b (\<lambda>bb. bb\<lparr>targets := keys_add (targets bb) t\<rparr>)"

definition add_source :: "blockmap \<Rightarrow> int \<Rightarrow> int \<Rightarrow> blockmap" where
  "add_source m b s = update_block m b (\<lambda>bb. bb\<lparr>sources := keys_add (sources bb) s\<rparr>)"

text \<open>
  The body of the first loop of \<open>get_basic_blocks\<close>, for the instruction at position \<open>i\<close>
  with the current block \<open>bb\<close>, in three parts: \<open>enter_block\<close> is the \<open>try\<close> statement
  that finds or starts the block of the instruction, \<open>successors\<close> is the list \<open>targets\<close>
  of a branch, \<open>link_target\<close> the body of the loop over it. The first operand of a
  branch is the integer target that the decoder put there; an empty operand list is the
  \<open>IndexError\<close> of \<open>operands[0]\<close>, and an operand of another kind, which the decoder
  never stores for a branch, is reported as a \<open>TypeError\<close>.
\<close>

definition link_target :: "int \<Rightarrow> int \<Rightarrow> blockmap \<Rightarrow> blockmap" where
  "link_target bb t m =
     (let m1 = (case dict_get m t of None \<Rightarrow> dict_set m t (mk_BasicBlock t) | Some bt \<Rightarrow> m);
          m2 = add_target m1 bb t
      in add_source m2 t bb)"

definition enter_block :: "Instruction \<Rightarrow> blockmap \<Rightarrow> int \<Rightarrow> blockmap \<times> int" where
  "enter_block insn m bb =
     (case dict_get m (Instruction.offset insn) of
        Some b \<Rightarrow> (m, Instruction.offset insn)
      | None \<Rightarrow>
          if jumptarget insn then
            (let nb = Instruction.offset insn;
                 ma = dict_set m nb (mk_BasicBlock nb);
                 mb = add_source ma nb bb;
                 mc = add_target mb bb nb
             in (mc, nb))
          else (m, bb))"

definition successors :: "Instruction \<Rightarrow> error + int list" where
  "successors insn =
     (case operands insn of
        [] \<Rightarrow> Inl IndexOutOfRange
      | ArgInt t0 # _ \<Rightarrow>
          (let sequence = Instruction.offset insn + size insn
           in Inr ([t0] @ (if \<not> jumps insn \<and> opcode insn \<noteq> Op_Ret then [sequence] else [])))
      | _ \<Rightarrow> Inl TypeMismatch)"

definition walk_step ::
  "nat \<Rightarrow> Instruction \<Rightarrow> blockmap \<Rightarrow> int \<Rightarrow> error option \<times> blockmap \<times> int" where
  "walk_step i insn m bb =
     (let m1 = fst (enter_block insn m bb);
          bb1 = snd (enter_block insn m bb);
          m2 = update_block m1 bb1 (\<lambda>b. b\<lparr>BasicBlock.body := BasicBlock.body b @ [i]\<rparr>)
      in if \<not> branches insn then (None, m2, bb1)
         else
           (case successors insn of
              Inl e \<Rightarrow> (Some e, m2, bb1)
            | Inr ts \<Rightarrow> (None, fold (link_target bb1) ts m2, bb1)))"

fun walk :: "nat \<Rightarrow> Instruction list \<Rightarrow> blockmap \<Rightarrow> int \<Rightarrow> error option \<times> blockmap" where
  "walk i [] m bb = (None, m)"
| "walk i (insn # rest) m bb =
     (case walk_step i insn m bb of
        (Some e, m', bb') \<Rightarrow> (Some e, m')
      | (None, m', bb') \<Rightarrow> walk (i + 1) rest m' bb')"

text \<open>
  The second loop, over a snapshot of the items: an empty block is deleted and popped
  from the \<open>targets\<close> of each of its sources.
\<close>

definition drop_block :: "int \<times> BasicBlock \<Rightarrow> blockmap \<Rightarrow> blockmap" where
  "drop_block kb m =
     (if BasicBlock.body (snd kb) \<noteq> [] then m
      else fold (\<lambda>s m'. update_block m' s (\<lambda>b. b\<lparr>targets := removeAll (fst kb) (targets b)\<rparr>))
             (sources (snd kb)) (dict_del m (fst kb)))"

definition drop_empty :: "blockmap \<Rightarrow> blockmap" where
  "drop_empty m = fold drop_block m m"

text \<open>
  Writing the entry depth to the instructions of a block (given by their positions) and
  adding up their stack deltas: the loop \<open>insn.stack = stack; stack += insn.stack_delta\<close>.
\<close>

fun annotate :: "nat list \<Rightarrow> int \<Rightarrow> Instruction list \<Rightarrow> Instruction list \<times> int" where
  "annotate [] s insns = (insns, s)"
| "annotate (i # is) s insns =
     annotate is (s + stack_delta (insns ! i))
       (insns[i := (insns ! i)\<lparr>Instruction.stack := Some s\<rparr>])"

text \<open>
  The local function \<open>trace_stack\<close> with the state it closes over: the block map, the
  instructions, and the sets \<open>visited\<close> and \<open>errored\<close>. The source recurses into the
  targets of a block in their order, and does nothing after a recursive call returns,
  so the pending calls form a stack: the first argument is this stack of calls
  \<open>(offset, stack)\<close>, the calls for the targets of a block are pushed in front of it.
  A call for an offset that has no block is the \<open>KeyError\<close> of \<open>bbs[offset]\<close>.
  The limit of the interpreter on the depth of the recursion is not modelled.
\<close>

record trace_state =
  blocks :: blockmap
  insns :: "Instruction list"
  visited :: "int set"
  errored :: "int set"

function trace_stack ::
  "(int \<times> int option) list \<Rightarrow> trace_state \<Rightarrow> error option \<times> trace_state" where
  "trace_stack [] st = (None, st)"
| "trace_stack ((off, stk) # calls) st =
     (if off \<in> errored st then trace_stack calls st
      else
        (case dict_get (blocks st) off of
           None \<Rightarrow> (Some KeyError, st)
         | Some bb \<Rightarrow>
             (case (if BasicBlock.stack bb \<noteq> None \<and> stk \<noteq> BasicBlock.stack bb
                    then None else stk) of
                None \<Rightarrow>
                  trace_stack (map (\<lambda>t. (t, None)) (targets bb) @ calls)
                    (st\<lparr>errored := insert off (errored st),
                        blocks := update_block (blocks st) off
                                    (\<lambda>b. b\<lparr>BasicBlock.stack := None\<rparr>)\<rparr>)
              | Some s \<Rightarrow>
                  if off \<in> visited st then trace_stack calls st
                  else
                    trace_stack
                      (map (\<lambda>t. (t, Some (snd (annotate (BasicBlock.body bb) s (insns st)))))
                         (targets bb) @ calls)
                      (st\<lparr>visited := insert off (visited st),
                          blocks := update_block (blocks st) off
                                      (\<lambda>b. b\<lparr>BasicBlock.stack := Some s\<rparr>),
                          insns := fst (annotate (BasicBlock.body bb) s (insns st))\<rparr>))))"
  by pat_completeness auto
termination
proof (relation "measures [\<lambda>(calls, st). card (set (map fst (blocks st)) - errored st)
                                         + card (set (map fst (blocks st)) - visited st),
                          \<lambda>(calls, st). length calls]", goal_cases)
  case 1
  show ?case by simp
next
  case (2 off stk calls st)
  then show ?case by simp
next
  case (3 off stk calls st bb)
  have "map fst (update_block (blocks st) off (\<lambda>b. b\<lparr>BasicBlock.stack := None\<rparr>))
          = map fst (blocks st)"
    by (simp add: update_block_def comp_def if_distrib cong: if_cong)
  then have keys: "fst ` set (update_block (blocks st) off (\<lambda>b. b\<lparr>BasicBlock.stack := None\<rparr>))
          = fst ` set (blocks st)"
    by (metis list.set_map)
  from 3 have "(off, bb) \<in> set (blocks st)"
    by (simp add: dict_get_def map_of_SomeD)
  then have "off \<in> set (map fst (blocks st))"
    by force
  with 3 have "card (set (map fst (blocks st)) - insert off (errored st))
                 < card (set (map fst (blocks st)) - errored st)"
    by (intro psubset_card_mono) auto
  then show ?case using keys by simp
next
  case (4 off stk calls st bb s)
  then show ?case by simp
next
  case (5 off stk calls st bb s)
  have "map fst (update_block (blocks st) off (\<lambda>b. b\<lparr>BasicBlock.stack := Some s\<rparr>))
          = map fst (blocks st)"
    by (simp add: update_block_def comp_def if_distrib cong: if_cong)
  then have keys: "fst ` set (update_block (blocks st) off (\<lambda>b. b\<lparr>BasicBlock.stack := Some s\<rparr>))
          = fst ` set (blocks st)"
    by (metis list.set_map)
  from 5 have "(off, bb) \<in> set (blocks st)"
    by (simp add: dict_get_def map_of_SomeD)
  then have "off \<in> set (map fst (blocks st))"
    by force
  with 5 have "card (set (map fst (blocks st)) - insert off (visited st))
                 < card (set (map fst (blocks st)) - visited st)"
    by (intro psubset_card_mono) auto
  then show ?case using keys by simp
qed

declare trace_stack.simps [simp del]

text \<open>
  The last loop: the validation of the operands. Only an element of \<open>operands\<close> that is
  an \<open>Operand\<close> is looked at, and of it only the field \<open>variant\<close> (a \<open>Variant\<close> is a
  tuple of two fields and so never false). \<open>k\<close> is the position from \<open>enumerate\<close>.
\<close>

definition check_operand :: "Instruction \<Rightarrow> int \<Rightarrow> nat \<Rightarrow> arg \<Rightarrow> error option" where
  "check_operand insn stk k a =
     (case a of
        ArgOperand op \<Rightarrow>
          (case variant op of
             None \<Rightarrow> None
           | Some v \<Rightarrow>
               if Variant.type v \<noteq> Local then None
               else if Variant.index v \<le> stk then None
               else Some (StackUnderflow (Instruction.offset insn) k (Variant.index v) stk))
      | _ \<Rightarrow> None)"

fun check_operands :: "Instruction \<Rightarrow> int \<Rightarrow> nat \<Rightarrow> arg list \<Rightarrow> error option" where
  "check_operands insn stk k [] = None"
| "check_operands insn stk k (a # as) =
     (case check_operand insn stk k a of
        Some e \<Rightarrow> Some e
      | None \<Rightarrow> check_operands insn stk (k + 1) as)"

fun validate :: "Instruction list \<Rightarrow> error option" where
  "validate [] = None"
| "validate (insn # rest) =
     (case Instruction.stack insn of
        None \<Rightarrow> validate rest
      | Some stk \<Rightarrow>
          (case check_operands insn stk 0 (operands insn) of
             Some e \<Rightarrow> Some e
           | None \<Rightarrow> validate rest))"

text \<open>
  \<open>Function.get_basic_blocks\<close>. \<open>propagate\<close> is the part before the validation: the walk
  from block 0, the removal of the empty blocks and \<open>trace_stack(0, 0)\<close>; it gives the
  error, if any, the block map and the instructions with their depths. The result of
  \<open>get_basic_blocks\<close> comes with the function as the call leaves it: \<open>_bbs\<close> is assigned
  before the first loop and keeps the block map also when an exception ends the call.
\<close>

definition propagate :: "Instruction list \<Rightarrow> error option \<times> blockmap \<times> Instruction list" where
  "propagate b =
     (case walk 0 b [(0, mk_BasicBlock 0)] 0 of
        (Some e, m) \<Rightarrow> (Some e, m, b)
      | (None, m) \<Rightarrow>
          (case trace_stack [(0, Some 0)]
                  \<lparr>blocks = drop_empty m, insns = b, visited = {}, errored = {}\<rparr> of
             (e, st) \<Rightarrow> (e, blocks st, insns st)))"

definition get_basic_blocks :: "Function \<Rightarrow> (error + obj) \<times> Function" where
  "get_basic_blocks self =
     (if bbs self \<noteq> ObjNone then (Inr (bbs self), self)
      else
        (case Function.body self of
           None \<Rightarrow> (Inr (ObjBlocks []), self\<lparr>bbs := ObjBlocks []\<rparr>)
         | Some b \<Rightarrow>
             (case propagate b of
                (Some e, m, b') \<Rightarrow>
                  (Inl e, self\<lparr>Function.body := Some b', bbs := ObjBlocks m\<rparr>)
              | (None, m, b') \<Rightarrow>
                  (case validate b' of
                     Some e \<Rightarrow> (Inl e, self\<lparr>Function.body := Some b', bbs := ObjBlocks m\<rparr>)
                   | None \<Rightarrow>
                       (Inr (ObjBlocks m),
                        self\<lparr>Function.body := Some b', bbs := ObjBlocks m\<rparr>)))))"

subsection \<open>The function table\<close>

text \<open>
  One entry of the function table as the reader delivers it to the first loop of
  \<open>IFPSFile._load_functions\<close>: the flag byte, and what the reads of each branch return
  (the name and the declaration of an external function; the name, the declaration
  blob and the decoded body of an internal one; the attribute block). The reads
  themselves go through \<open>StructReader\<close>, \<open>DeclSpec.ParseF\<close>, \<open>_parse_bytecode\<close> and
  \<open>_read_attributes\<close> and are not modelled. The second loop, which resolves the targets
  of \<open>Call\<close>, is not modelled either.
\<close>

record FunctionEntry =
  tags :: int
  ext_name :: string
  ext_decl :: DeclSpec
  int_name :: string
  int_decl :: string
  bytecode :: "Instruction list"
  attrs :: "Attribute list"

definition FTag_External :: int where "FTag_External = 1"
definition FTag_Exported :: int where "FTag_Exported = 2"
definition FTag_HasAttrs :: int where "FTag_HasAttrs = 4"

definition FTag_check :: "int \<Rightarrow> int \<Rightarrow> bool" where
  "FTag_check flag v = (flag AND v \<noteq> 0)"

text \<open>The synthetic name \<open>F'F{k:0{width}X}'\<close>.\<close>

fun hex :: "nat \<Rightarrow> string" where
  "hex n = (if n < 16 then [''0123456789ABCDEF'' ! n]
            else hex (n div 16) @ [''0123456789ABCDEF'' ! (n mod 16)])"

definition synthetic_name :: "nat \<Rightarrow> nat \<Rightarrow> string" where
  "synthetic_name k w = ''F'' @ replicate (w - length (hex k)) CHR ''0'' @ hex k"

text \<open>
  The body of the first loop for entry \<open>k\<close>: the arguments are the type table, the
  width of the synthetic names and the flag \<open>self.void\<close> as the entry finds it; the
  result is the function appended to \<open>self.functions\<close> and the flag as the entry leaves
  it. The last line of the loop constructs the function with five positional arguments,
  \<open>Function(name, decl, body, exported, attributes)\<close>.
\<close>

definition load_function ::
  "IFPSType list \<Rightarrow> nat \<Rightarrow> nat \<Rightarrow> bool \<Rightarrow> FunctionEntry \<Rightarrow> error + (Function \<times> bool)" where
  "load_function types w k void0 e =
     (let exported = FTag_check FTag_Exported (tags e);
          attributes0 = (if FTag_check FTag_HasAttrs (tags e) then ObjAttributes (attrs e)
                         else ObjNone)
      in if FTag_check FTag_External (tags e) then
           Inr (mk_Function (ext_name e) (if exported then Some (ext_decl e) else None) None
                  (ObjBool exported) attributes0, void0)
         else if exported then
           (case ParseE (int_decl e) types of
              Inl err \<Rightarrow> Inl err
            | Inr d \<Rightarrow>
                Inr (mk_Function (int_name e) (Some d) (Some (bytecode e))
                       (ObjBool exported) attributes0, DeclSpec.void d))
         else
           Inr (mk_Function (synthetic_name k w) None (Some (bytecode e))
                  (ObjBool exported) attributes0, False))"

fun load_functions ::
  "IFPSType list \<Rightarrow> nat \<Rightarrow> nat \<Rightarrow> bool \<Rightarrow> FunctionEntry list \<Rightarrow> error + Function list" where
  "load_functions types w k void0 [] = Inr []"
| "load_functions types w k void0 (e # es) =
     (case load_function types w k void0 e of
        Inl err \<Rightarrow> Inl err
      | Inr (f, void1) \<Rightarrow>
          (case load_functions types w (k + 1) void1 es of
             Inl err \<Rightarrow> Inl err
           | Inr fs \<Rightarrow> Inr (f # fs)))"

text \<open>Instructions and operands as the decoder makes them, for the examples below.\<close>

definition mk_Instruction :: "int \<Rightarrow> Op \<Rightarrow> int \<Rightarrow> arg list \<Rightarrow> bool \<Rightarrow> Instruction" where
  "mk_Instruction off oc sz ops jt =
     \<lparr>Instruction.offset = off, opcode = oc, size = sz, stack = None, operands = ops,
      operator = None, jumptarget = jt\<rparr>"

definition variant_operand :: "Variant \<Rightarrow> arg" where
  "variant_operand v =
     ArgOperand \<lparr>Operand.type = OT_Variant, variant = Some v, val = None, index = None\<rparr>"

definition indexed_by_var :: "Variant \<Rightarrow> Variant \<Rightarrow> arg" where
  "indexed_by_var v w =
     ArgOperand \<lparr>Operand.type = OT_IndexedByVar, variant = Some v, val = None,
                 index = Some (Inl w)\<rparr>"

text \<open>
  Example bodies, with the offsets, sizes and jump-target marks that the decoder gives
  them. \<open>loop_body\<close> is a loop with its test at the end: a jump to the test at 6, the
  loop body at 5, the conditional jump back to 5, and the return.
  \<open>equal_depth_body\<close> pushes the local variable 0 at depth 0 and then, at depth 1,
  assigns to the local variable 1 from a global indexed by the local variable 7.
  \<open>underflow_body\<close> assigns to the local variable 2 at depth 0.
\<close>

definition loop_body :: "Instruction list" where
  "loop_body =
     [mk_Instruction 0 Op_Jump 5 [ArgInt 6] False,
      mk_Instruction 5 Op_Nop 1 [] True,
      mk_Instruction 6 Op_JumpFlag 5 [ArgInt 5] True,
      mk_Instruction 11 Op_Ret 1 [] False]"

definition equal_depth_body :: "Instruction list" where
  "equal_depth_body =
     [mk_Instruction 0 Op_Push 6 [variant_operand (mk_Variant 0 Local)] False,
      mk_Instruction 6 Op_Assign 15
        [variant_operand (mk_Variant 1 Local),
         indexed_by_var (mk_Variant 1 Global) (mk_Variant 7 Local)] False,
      mk_Instruction 21 Op_Ret 1 [] False]"

definition underflow_body :: "Instruction list" where
  "underflow_body =
     [mk_Instruction 0 Op_Assign 11
        [variant_operand (mk_Variant 2 Local), variant_operand (mk_Variant 0 Global)] False,
      mk_Instruction 11 Op_Ret 1 [] False]"

definition ret_body :: "Instruction list" where
  "ret_body = [mk_Instruction 0 Op_Ret 1 [] False]"

text \<open>The instructions with the depths written to them, in the order of the body.\<close>

fun with_stacks :: "Instruction list \<Rightarrow> int option list \<Rightarrow> Instruction list" where
  "with_stacks (i # is) (s # ss) = i\<lparr>Instruction.stack := s\<rparr> # with_stacks is ss"
| "with_stacks is _ = is"

text \<open>
  An internal function that is not exported, with the given flag byte, body and
  attribute block, as entry 0 of a function table of one entry.
\<close>

definition internal_entry :: "int \<Rightarrow> Instruction list \<Rightarrow> Attribute list \<Rightarrow> FunctionEntry" where
  "internal_entry t b a =
     \<lparr>tags = t, ext_name = [], ext_decl = mk_DeclSpec True [] None, int_name = [],
      int_decl = [], bytecode = b, attrs = a\<rparr>"

text \<open>
  A block map has its entry block when 0 is a key and the block under the key 0 holds
  position 0 of the body, the first instruction.
\<close>

definition entry_block :: "blockmap \<Rightarrow> bool" where
  "entry_block m \<longleftrightarrow>
     0 \<in> fst ` set m \<and> (\<forall>kb \<in> set m. fst kb = 0 \<longrightarrow> 0 \<in> set (BasicBlock.body (snd kb)))"

section \<open>Theorems\<close>

subsection \<open>Variant decoding\<close>

text \<open>
  The flag \<open>self.void\<close> while the body of an internal function is decoded is the one its
  entry of the function table leaves: the void flag of the declaration of an exported
  function, and \<open>False\<close> for a function that is not exported and has no declaration.
\<close>

lemma load_function_void_flag:
  assumes "load_function types w k v e = Inr (f, v')"
  shows "v' = (if FTag_check FTag_External (tags e) then v
               else case decl f of None \<Rightarrow> False | Some d \<Rightarrow> DeclSpec.void d)"
  using assms
  by (auto simp: load_function_def mk_Function_def Let_def split: if_splits sum.splits)

text \<open>
  C7. Decoding a 32-bit variant word \<open>v\<close> (read unsigned, so \<open>uint v\<close>): below
  \<open>0x40000000\<close> the result is Global with index \<open>v\<close>; from \<open>0x60000000\<close> on, the value
  \<open>d = v - 0x60000000\<close> is not negative and the result is Local with index \<open>d\<close>; when
  the subtraction is reached and \<open>d\<close> is negative, the result is Argument, with index
  \<open>- d\<close> when the void flag \<open>flag\<close> of the unit is set and the bitwise complement of \<open>d\<close> otherwise.
\<close>

theorem read_variant_cases:
  fixes v :: "32 word"
  defines "d \<equiv> uint v - 0x60000000"
  shows "(uint v < 0x40000000 \<longrightarrow> read_variant flag (uint v) = mk_Variant (uint v) Global)
       \<and> (uint v \<ge> 0x60000000 \<longrightarrow> d \<ge> 0 \<and> read_variant flag (uint v) = mk_Variant d Local)
       \<and> (uint v \<ge> 0x40000000 \<and> d < 0 \<longrightarrow>
            read_variant flag (uint v) = mk_Variant (if flag then - d else NOT d) Argument)"
  by (simp add: read_variant_def d_def Let_def)

theorem read_variant_cases_witness:
  "read_variant True (uint (0x10 :: 32 word)) = mk_Variant 0x10 Global
   \<and> read_variant True (uint (0x60000002 :: 32 word)) = mk_Variant 2 Local
   \<and> read_variant True (uint (0x5FFFFFFF :: 32 word)) = mk_Variant 1 Argument
   \<and> read_variant False (uint (0x5FFFFFFF :: 32 word)) = mk_Variant 0 Argument"
  using read_variant_cases [of "0x10" True] read_variant_cases [of "0x60000002" True]
    read_variant_cases [of "0x5FFFFFFF" True] read_variant_cases [of "0x5FFFFFFF" False]
  by simp

text \<open>
  C10. Every 32-bit word in \<open>[0x40000000, 0x60000000)\<close> falls through to the subtraction,
  gives a negative \<open>d\<close> and is decoded as an Argument (index \<open>- d\<close> under the void flag,
  the complement of \<open>d\<close> otherwise). The decoder has no failing branch: every 32-bit
  word is decoded to one of the three kinds.
\<close>

theorem read_variant_middle_range:
  fixes v :: "32 word"
  shows "(0x40000000 \<le> uint v \<and> uint v < 0x60000000 \<longrightarrow>
            uint v - 0x60000000 < 0
            \<and> read_variant flag (uint v) =
                mk_Variant (if flag then - (uint v - 0x60000000) else NOT (uint v - 0x60000000)) Argument)
       \<and> Variant.type (read_variant flag (uint v)) \<in> {Global, Local, Argument}"
  by (simp add: read_variant_def Let_def mk_Variant_def)

theorem read_variant_middle_range_witness:
  "read_variant True (uint (0x40000000 :: 32 word)) = mk_Variant 0x20000000 Argument
   \<and> read_variant False (uint (0x40000000 :: 32 word)) = mk_Variant 0x1FFFFFFF Argument"
  using read_variant_middle_range [of "0x40000000" True]
    read_variant_middle_range [of "0x40000000" False]
  by simp

subsection \<open>Variable cells\<close>

lemmas cell_defs = fresh_def assign_read_def set_keys_read_def fresh_set_def
  Variable_init_def Variable_set_def Variable_get_def set_item_def cast_def wrap_def
  in_good_def container_def py_type_def default_at_def max_key_def py_index_def
  dict_get_def mk_Variant_def

lemma and_low_bits: "(v :: int) AND (2 ^ n - 1) = v mod 2 ^ n"
proof -
  have "v AND mask n = v mod 2 ^ n"
    by (simp flip: take_bit_eq_mask add: take_bit_eq_mod)
  then show ?thesis
    by (simp add: mask_eq_exp_minus_1)
qed

lemma and_255: "(v :: int) AND 255 = v mod 256"
  using and_low_bits [of v 8] by simp

lemma and_65535: "(v :: int) AND 65535 = v mod 65536"
  using and_low_bits [of v 16] by simp

lemma and_32_ones: "(v :: int) AND 4294967295 = v mod 4294967296"
  using and_low_bits [of v 32] by simp

lemma and_64_ones: "(v :: int) AND 18446744073709551615 = v mod 18446744073709551616"
  using and_low_bits [of v 64] by simp

text \<open>
  What an assignment of an integer to a fixed-width integer cell stores: the unsigned
  cells store \<open>v mod 2 ^ B\<close>; the signed cells keep a value of their range and store
  \<open>v mod 2 ^ B\<close> for any other, with no subtraction of \<open>2 ^ B\<close>.
\<close>

lemma assign_read_unsigned:
  "assign_read (TPrimitive TC_U08) (PyInt v) = Inr (PyInt (v mod 2 ^ 8))"
  "assign_read (TPrimitive TC_U16) (PyInt v) = Inr (PyInt (v mod 2 ^ 16))"
  "assign_read (TPrimitive TC_U32) (PyInt v) = Inr (PyInt (v mod 2 ^ 32))"
  by (simp_all add: cell_defs and_255 and_65535 and_32_ones)

lemma assign_read_signed:
  "assign_read (TPrimitive TC_S08) (PyInt v) =
     Inr (PyInt (if - (2 ^ 7) \<le> v \<and> v < 2 ^ 7 then v else v mod 2 ^ 8))"
  "assign_read (TPrimitive TC_S16) (PyInt v) =
     Inr (PyInt (if - (2 ^ 15) \<le> v \<and> v < 2 ^ 15 then v else v mod 2 ^ 16))"
  "assign_read (TPrimitive TC_S32) (PyInt v) =
     Inr (PyInt (if - (2 ^ 31) \<le> v \<and> v < 2 ^ 31 then v else v mod 2 ^ 32))"
  "assign_read (TPrimitive TC_S64) (PyInt v) =
     Inr (PyInt (if - (2 ^ 63) \<le> v \<and> v < 2 ^ 63 then v else v mod 2 ^ 64))"
  by (simp_all add: cell_defs and_255 and_65535 and_32_ones and_64_ones)

text \<open>
  C2 (the code departs from the claim). The three boundary assignments of the claim, as
  the code performs them: U08 assigned 256 stores 0 and S08 assigned -129 stores 127, as
  claimed, but S08 assigned 128 stores 128, which is outside the range of S08; the claim
  says -128. In \<open>_wrap\<close> the variable \<open>s\<close> is a truth value, never negative, so the
  branch that reinterprets the high bit is never taken.
\<close>

theorem wrap_boundary_values:
  "assign_read (TPrimitive TC_U08) (PyInt 256) = Inr (PyInt 0)
   \<and> assign_read (TPrimitive TC_S08) (PyInt 128) = Inr (PyInt 128)
   \<and> assign_read (TPrimitive TC_S08) (PyInt (- 129)) = Inr (PyInt 127)"
  by (simp add: cell_defs)

text \<open>
  C4 (the code departs from the claim). A static array of two U08 with both keys set,
  5 at key 0 and 7 at key 1: \<open>get()\<close> returns the one-element list \<open>[5]\<close>, not the dense
  sequence \<open>[5, 7]\<close> of the claim. \<open>get\<close> runs over \<open>range(max(data))\<close>, which stops
  before the greatest key. An array and a record with all their keys set lose their last
  element in the same way.
\<close>

theorem get_container_drops_last:
  "set_keys_read (TStaticArray TC_StaticArray (TPrimitive TC_U08) 2 None) [PyInt 5, PyInt 7]
     = Inr (PyList [PyInt 5])
   \<and> set_keys_read (TArray TC_Array (TPrimitive TC_U08)) [PyInt 5, PyInt 7, PyInt 9]
     = Inr (PyList [PyInt 5, PyInt 7])
   \<and> set_keys_read (TRecord TC_Record [TPrimitive TC_U08, TPrimitive TC_String])
         [PyInt 5, PyStr [104, 105]]
     = Inr (PyList [PyInt 5])"
  by (simp add: cell_defs upto.simps)

text \<open>
  C9 (the code departs from the claim). On a newly constructed set cell of size 9 the
  attribute \<open>data\<close> is the dictionary \<open>{None: 0}\<close> that \<open>__init__\<close> makes for every cell
  that is no container, not a bitmask. \<open>set(True, key=8)\<close> computes \<open>data |= 1 << 8\<close> on
  it and fails with a \<open>TypeError\<close> instead of leaving \<open>0x100\<close>; \<open>set(False, key=3)\<close>
  fails in \<open>data >> 3\<close> the same way. Key 9 fails with the \<open>IndexError\<close> of the claim,
  since the range test comes first.
\<close>

theorem fresh_set_cell_keyed_set:
  "fresh (TSet TC_Set 9) =
     Inr \<lparr>Variable.type = TSet TC_Set 9, spec = Inl (mk_Variant 0 Global), data = PyDict [(None, PyInt 0)],
          keyrange = KeyNone, int_size = 0, int_bits = None, int_mask = None, int_good = None\<rparr>
   \<and> fresh_set (TSet TC_Set 9) (PyBool True) (Some 8) = Inl TypeMismatch
   \<and> fresh_set (TSet TC_Set 9) (PyBool True) (Some 9) = Inl IndexOutOfRange
   \<and> fresh_set (TSet TC_Set 9) (PyBool False) (Some 3) = Inl TypeMismatch"
  by (simp add: cell_defs)

text \<open>
  Once an unkeyed \<open>set\<close> has stored a bitmask, the keyed operations do what the claim
  describes: bit 8 gives \<open>0x100\<close>, and clearing a clear bit changes nothing.
\<close>

lemma set_cell_after_unkeyed_set:
  assumes "fresh_set (TSet TC_Set 9) (PyInt 0) None = Inr c"
  shows "data c = PyInt 0"
    and "\<exists>c'. Variable_set c (PyBool True) (Some 8) = Inr c' \<and> data c' = PyInt 0x100"
    and "0 \<le> k \<Longrightarrow> k < 9 \<Longrightarrow> Variable_set c (PyBool False) (Some k) = Inr c"
  using assms by (auto simp add: cell_defs)

subsection \<open>The header of the unit\<close>

lemma u32_at:
  assumes "p + 4 \<le> length (buffer r)"
  shows "u32 (r\<lparr>pos := p\<rparr>) = Inr (le_value (take 4 (drop p (buffer r))), r\<lparr>pos := p + 4\<rparr>)"
  using assms by (simp add: u32_def read_def remaining_bytes_def)

lemma IFPSFile_init_28:
  assumes "28 \<le> remaining_bytes r"
  shows "IFPSFile_init r =
     (if take 4 (drop (pos r) (buffer r)) \<noteq> Magic then Inl BadMagic
      else if \<not> (12 \<le> le_value (take 4 (drop (pos r + 4) (buffer r)))
                 \<and> le_value (take 4 (drop (pos r + 4) (buffer r))) \<le> 23)
      then Inl (UnsupportedVersion (le_value (take 4 (drop (pos r + 4) (buffer r)))))
      else Inr (\<lparr>version = le_value (take 4 (drop (pos r + 4) (buffer r))),
                 count_types = le_value (take 4 (drop (pos r + 8) (buffer r))),
                 count_functions = le_value (take 4 (drop (pos r + 12) (buffer r))),
                 count_variables = le_value (take 4 (drop (pos r + 16) (buffer r))),
                 entry = le_value (take 4 (drop (pos r + 20) (buffer r))),
                 import_size = le_value (take 4 (drop (pos r + 24) (buffer r))),
                 unit_void = False\<rparr>, r\<lparr>pos := pos r + 28\<rparr>))"
proof -
  from assms have len: "pos r + 28 \<le> length (buffer r)"
    by (simp add: remaining_bytes_def)
  have magic: "read r 4 = Inr (take 4 (drop (pos r) (buffer r)), r\<lparr>pos := pos r + 4\<rparr>)"
    using len by (simp add: read_def remaining_bytes_def)
  have r1: "u32 (r\<lparr>pos := pos r + 4\<rparr>)
      = Inr (le_value (take 4 (drop (pos r + 4) (buffer r))), r\<lparr>pos := pos r + 8\<rparr>)"
    using len u32_at [of "pos r + 4" r] by simp
  have r2: "u32 (r\<lparr>pos := pos r + 8\<rparr>)
      = Inr (le_value (take 4 (drop (pos r + 8) (buffer r))), r\<lparr>pos := pos r + 12\<rparr>)"
    using len u32_at [of "pos r + 8" r] by simp
  have r3: "u32 (r\<lparr>pos := pos r + 12\<rparr>)
      = Inr (le_value (take 4 (drop (pos r + 12) (buffer r))), r\<lparr>pos := pos r + 16\<rparr>)"
    using len u32_at [of "pos r + 12" r] by simp
  have r4: "u32 (r\<lparr>pos := pos r + 16\<rparr>)
      = Inr (le_value (take 4 (drop (pos r + 16) (buffer r))), r\<lparr>pos := pos r + 20\<rparr>)"
    using len u32_at [of "pos r + 16" r] by simp
  have r5: "u32 (r\<lparr>pos := pos r + 20\<rparr>)
      = Inr (le_value (take 4 (drop (pos r + 20) (buffer r))), r\<lparr>pos := pos r + 24\<rparr>)"
    using len u32_at [of "pos r + 20" r] by simp
  have r6: "u32 (r\<lparr>pos := pos r + 24\<rparr>)
      = Inr (le_value (take 4 (drop (pos r + 24) (buffer r))), r\<lparr>pos := pos r + 28\<rparr>)"
    using len u32_at [of "pos r + 24" r] by simp
  have "\<not> remaining_bytes r < 28"
    using assms by simp
  then show ?thesis
    unfolding IFPSFile_init_def
    by (simp add: magic r1 r2 r3 r4 r5 r6 MinVer_def MaxVer_def)
qed

text \<open>
  C8. With fewer than 28 bytes left the parse fails with \<open>TruncatedHeader\<close>. With 28
  bytes or more, it fails with \<open>BadMagic\<close> when the first four bytes are not \<open>IFPS\<close>, and
  with the magic in place it fails with \<open>UnsupportedVersion\<close> when the version (the
  little-endian value of the next four bytes) is outside 12..23. With 28 bytes, the
  magic and a version in 12..23 none of the three errors is raised: the header is
  decoded, with that version, and the reader stands 28 bytes further.
\<close>

theorem header_checks:
  fixes r :: StructReader
  defines "magic \<equiv> take 4 (drop (pos r) (buffer r))"
    and "ver \<equiv> le_value (take 4 (drop (pos r + 4) (buffer r)))"
  shows "(remaining_bytes r < 28 \<longrightarrow> IFPSFile_init r = Inl TruncatedHeader)
       \<and> (28 \<le> remaining_bytes r \<and> magic \<noteq> Magic \<longrightarrow> IFPSFile_init r = Inl BadMagic)
       \<and> (28 \<le> remaining_bytes r \<and> magic = Magic \<and> \<not> (12 \<le> ver \<and> ver \<le> 23) \<longrightarrow>
            IFPSFile_init r = Inl (UnsupportedVersion ver))
       \<and> (28 \<le> remaining_bytes r \<and> magic = Magic \<and> 12 \<le> ver \<and> ver \<le> 23 \<longrightarrow>
            (\<exists>u. IFPSFile_init r = Inr (u, r\<lparr>pos := pos r + 28\<rparr>) \<and> version u = ver))"
proof (cases "remaining_bytes r < 28")
  case True
  then show ?thesis
    by (simp add: IFPSFile_init_def)
next
  case False
  then have "28 \<le> remaining_bytes r"
    by simp
  note eq = IFPSFile_init_28 [OF this]
  from False show ?thesis
    unfolding magic_def ver_def by (simp add: eq)
qed

theorem header_checks_witness:
  "IFPSFile_init \<lparr>buffer = [0x49, 0x46, 0x50], pos = 0\<rparr> = Inl TruncatedHeader
   \<and> IFPSFile_init \<lparr>buffer = [0x4D, 0x5A, 0x50, 0x53] @ replicate 24 0, pos = 0\<rparr> = Inl BadMagic
   \<and> IFPSFile_init \<lparr>buffer = [0x49, 0x46, 0x50, 0x53, 0x0B, 0, 0, 0] @ replicate 20 0, pos = 0\<rparr>
       = Inl (UnsupportedVersion 11)
   \<and> IFPSFile_init \<lparr>buffer = [0x49, 0x46, 0x50, 0x53, 0x18, 0, 0, 0] @ replicate 20 0, pos = 0\<rparr>
       = Inl (UnsupportedVersion 24)
   \<and> (\<exists>u. IFPSFile_init \<lparr>buffer = [0x49, 0x46, 0x50, 0x53, 0x17, 0, 0, 0] @ replicate 20 0, pos = 0\<rparr>
            = Inr (u, \<lparr>buffer = [0x49, 0x46, 0x50, 0x53, 0x17, 0, 0, 0] @ replicate 20 0, pos = 28\<rparr>)
          \<and> version u = 23)"
  using header_checks [of "\<lparr>buffer = [0x49, 0x46, 0x50], pos = 0\<rparr>"]
    header_checks [of "\<lparr>buffer = [0x4D, 0x5A, 0x50, 0x53] @ replicate 24 0, pos = 0\<rparr>"]
    header_checks [of "\<lparr>buffer = [0x49, 0x46, 0x50, 0x53, 0x0B, 0, 0, 0] @ replicate 20 0, pos = 0\<rparr>"]
    header_checks [of "\<lparr>buffer = [0x49, 0x46, 0x50, 0x53, 0x18, 0, 0, 0] @ replicate 20 0, pos = 0\<rparr>"]
    header_checks [of "\<lparr>buffer = [0x49, 0x46, 0x50, 0x53, 0x17, 0, 0, 0] @ replicate 20 0, pos = 0\<rparr>"]
  by (simp add: remaining_bytes_def Magic_def)

subsection \<open>Exported internal declarations\<close>

lemma ParseE_parameters_tokens:
  "ParseE_parameters types toks = Inr ps \<Longrightarrow>
     length ps = length toks \<and>
     (\<forall>k < length toks.
        input (ps ! k) = (take 1 (toks ! k) = ''@'')
      \<and> (py_int (drop 1 (toks ! k)) = None \<longrightarrow> ptype (ps ! k) = None)
      \<and> (\<forall>i. py_int (drop 1 (toks ! k)) = Some i \<longrightarrow>
               (\<exists>t. py_index types i = Inr t \<and> ptype (ps ! k) = Some t)))"
proof (induction toks arbitrary: ps)
  case Nil
  then show ?case by simp
next
  case (Cons tok toks)
  from Cons.prems obtain tv ps' where
    tv: "(case py_int (drop 1 tok) of None \<Rightarrow> Inr None
          | Some i \<Rightarrow> (case py_index types i of Inl e \<Rightarrow> Inl e | Inr t \<Rightarrow> Inr (Some t)))
         = Inr tv"
    and rest: "ParseE_parameters types toks = Inr ps'"
    and ps: "ps = DeclSpecParam (take 1 tok = ''@'') tv # ps'"
    by (auto split: sum.splits)
  from Cons.IH [OF rest] have len: "length ps' = length toks"
    and IH: "\<And>k. k < length toks \<Longrightarrow>
        input (ps' ! k) = (take 1 (toks ! k) = ''@'')
      \<and> (py_int (drop 1 (toks ! k)) = None \<longrightarrow> ptype (ps' ! k) = None)
      \<and> (\<forall>i. py_int (drop 1 (toks ! k)) = Some i \<longrightarrow>
               (\<exists>t. py_index types i = Inr t \<and> ptype (ps' ! k) = Some t))"
    by auto
  have first: "(py_int (drop 1 tok) = None \<longrightarrow> tv = None)
      \<and> (\<forall>i. py_int (drop 1 tok) = Some i \<longrightarrow> (\<exists>t. py_index types i = Inr t \<and> tv = Some t))"
    using tv by (auto split: option.splits sum.splits)
  have "input (ps ! k) = (take 1 ((tok # toks) ! k) = ''@'')
      \<and> (py_int (drop 1 ((tok # toks) ! k)) = None \<longrightarrow> ptype (ps ! k) = None)
      \<and> (\<forall>i. py_int (drop 1 ((tok # toks) ! k)) = Some i \<longrightarrow>
               (\<exists>t. py_index types i = Inr t \<and> ptype (ps ! k) = Some t))"
    if k: "k < length (tok # toks)" for k
  proof (cases k)
    case 0
    with first ps show ?thesis by simp
  next
    case (Suc j)
    with k IH [of j] ps show ?thesis by simp
  qed
  moreover have "length ps = length (tok # toks)"
    using ps len by simp
  ultimately show ?case by blast
qed

text \<open>
  C5 as the code has it. When an exported internal declaration parses, there is one
  parameter for each token after the first. A token whose first character is \<open>@\<close>
  gives a parameter with the input flag set, an input parameter; every other token, the
  empty one too, gives one with the flag clear, an output parameter. When the rest of
  the token converts with \<open>int\<close>, the result is used as an index into the type table of
  the unit and that entry is the type of the parameter; when it does not convert, the
  parameter has no type.
\<close>

theorem ParseE_at_sign_is_input:
  assumes "ParseE bytes types = Inr d"
  shows "length (parameters d) = length (tl (split CHR '' '' bytes))
       \<and> (\<forall>k < length (tl (split CHR '' '' bytes)).
            input (parameters d ! k) = (take 1 (tl (split CHR '' '' bytes) ! k) = ''@'')
          \<and> (py_int (drop 1 (tl (split CHR '' '' bytes) ! k)) = None \<longrightarrow>
               ptype (parameters d ! k) = None)
          \<and> (\<forall>i. py_int (drop 1 (tl (split CHR '' '' bytes) ! k)) = Some i \<longrightarrow>
               (\<exists>t. py_index types i = Inr t \<and> ptype (parameters d ! k) = Some t)))"
proof -
  from assms obtain ps where ps: "ParseE_parameters types (tl (split CHR '' '' bytes)) = Inr ps"
    and d: "parameters d = ps"
    by (auto simp: ParseE_def Let_def mk_DeclSpec_def split: sum.splits)
  from ParseE_parameters_tokens [OF ps] show ?thesis
    unfolding d .
qed

theorem ParseE_at_sign_is_input_witness:
  "ParseE ''1 @0 x1'' [TPrimitive TC_U08, TPrimitive TC_String]
     = Inr (mk_DeclSpec False
              [DeclSpecParam True (Some (TPrimitive TC_U08)),
               DeclSpecParam False (Some (TPrimitive TC_String))]
              (Some (TPrimitive TC_String)))
   \<and> input (DeclSpecParam True (Some (TPrimitive TC_U08))) = (take 1 ''@0'' = ''@'')
   \<and> input (DeclSpecParam False (Some (TPrimitive TC_String))) = (take 1 ''x1'' = ''@'')"
proof -
  have run: "ParseE ''1 @0 x1'' [TPrimitive TC_U08, TPrimitive TC_String]
     = Inr (mk_DeclSpec False
              [DeclSpecParam True (Some (TPrimitive TC_U08)),
               DeclSpecParam False (Some (TPrimitive TC_String))]
              (Some (TPrimitive TC_String)))"
    by code_simp
  from ParseE_at_sign_is_input [OF run] have
    "\<forall>k < 2. input (parameters (mk_DeclSpec False
              [DeclSpecParam True (Some (TPrimitive TC_U08)),
               DeclSpecParam False (Some (TPrimitive TC_String))]
              (Some (TPrimitive TC_String))) ! k) = (take 1 ([''@0'', ''x1''] ! k) = ''@'')"
    by simp
  then have "input (DeclSpecParam True (Some (TPrimitive TC_U08))) = (take 1 ''@0'' = ''@'')
      \<and> input (DeclSpecParam False (Some (TPrimitive TC_String))) = (take 1 ''x1'' = ''@'')"
    by (simp add: mk_DeclSpec_def)
  with run show ?thesis by simp
qed

text \<open>
  The claim C5 says that an \<open>@\<close> token yields an output parameter. For the declaration
  \<open>-1 @0 !0\<close> the code gives the first parameter, from \<open>@0\<close>, the input flag \<open>True\<close> and the
  second, from \<open>!0\<close>, the input flag \<open>False\<close>.
\<close>

theorem ParseE_at_sign_counterexample:
  "ParseE ''-1 @0 !0'' [TPrimitive TC_U08]
     = Inr (mk_DeclSpec True
              [DeclSpecParam True (Some (TPrimitive TC_U08)),
               DeclSpecParam False (Some (TPrimitive TC_U08))]
              None)"
  by code_simp

subsection \<open>Stack validation\<close>

lemma check_operands_None:
  "check_operands insn s k as = None \<longleftrightarrow>
     (\<forall>op v. ArgOperand op \<in> set as \<and> variant op = Some v \<and> Variant.type v = Local
        \<longrightarrow> Variant.index v \<le> s)"
proof (induction as arbitrary: k)
  case Nil
  show ?case by simp
next
  case (Cons a as)
  show ?case
  proof (cases "check_operand insn s k a")
    case None
    then have "\<forall>op v. a = ArgOperand op \<and> variant op = Some v \<and> Variant.type v = Local
                 \<longrightarrow> Variant.index v \<le> s"
      by (auto simp: check_operand_def split: if_splits)
    with None Cons.IH [of "k + 1"] show ?thesis by auto
  next
    case (Some e)
    then obtain op v where "a = ArgOperand op" "variant op = Some v" "Variant.type v = Local"
      "\<not> Variant.index v \<le> s"
      by (auto simp: check_operand_def split: arg.splits option.splits if_splits)
    with Some show ?thesis by auto
  qed
qed

lemma check_operands_Some:
  "check_operands insn s k as = Some e \<Longrightarrow>
     \<exists>k' i. e = StackUnderflow (Instruction.offset insn) k' i s \<and> s < i"
proof (induction as arbitrary: k)
  case Nil
  then show ?case by simp
next
  case (Cons a as)
  show ?case
  proof (cases "check_operand insn s k a")
    case None
    with Cons show ?thesis by simp
  next
    case (Some e')
    with Cons.prems have "e' = e" by simp
    with Some show ?thesis
      by (auto simp: check_operand_def split: arg.splits option.splits if_splits)
  qed
qed

lemma validate_None:
  "validate b = None \<longleftrightarrow>
     (\<forall>insn \<in> set b. \<forall>s op v. Instruction.stack insn = Some s
         \<and> ArgOperand op \<in> set (operands insn) \<and> variant op = Some v
         \<and> Variant.type v = Local \<longrightarrow> Variant.index v \<le> s)"
proof (induction b)
  case Nil
  show ?case by simp
next
  case (Cons insn rest)
  show ?case
  proof (cases "Instruction.stack insn")
    case None
    with Cons.IH show ?thesis by simp
  next
    case (Some s)
    show ?thesis
    proof (cases "check_operands insn s 0 (operands insn)")
      case None
      with Some Cons.IH check_operands_None [of insn s 0 "operands insn"] show ?thesis
        by auto
    next
      case (Some e)
      then have "check_operands insn s 0 (operands insn) \<noteq> None" by simp
      then obtain op v where "ArgOperand op \<in> set (operands insn)" "variant op = Some v"
        "Variant.type v = Local" "\<not> Variant.index v \<le> s"
        using check_operands_None [of insn s 0 "operands insn"] by auto
      with Some \<open>Instruction.stack insn = Some s\<close> show ?thesis by auto
    qed
  qed
qed

lemma validate_Some:
  "validate b = Some e \<Longrightarrow> \<exists>off k i s. e = StackUnderflow off k i s \<and> s < i"
proof (induction b)
  case Nil
  then show ?case by simp
next
  case (Cons insn rest)
  then show ?case
    by (auto split: option.splits dest: check_operands_Some)
qed

text \<open>
  C3 as the code has it. Take a function that has a body and no cached block map, whose
  blocks were built and whose depths were propagated without error, giving the block
  map \<open>m\<close> and the annotated instructions \<open>b'\<close>. The call fails with \<open>StackUnderflow\<close>
  exactly when some instruction with a known depth \<open>s\<close> has, among its operands, an
  \<open>Operand\<close> whose own variant is Local with an index greater than \<open>s\<close>. It returns the
  block map exactly when every such index is at most \<open>s\<close>. An index equal to the depth
  passes, and the sub-index of an operand is not inspected.
\<close>

theorem stack_validation_exact:
  assumes "bbs f = ObjNone" and "Function.body f = Some b" and "propagate b = (None, m, b')"
  shows "((\<exists>off k i s. fst (get_basic_blocks f) = Inl (StackUnderflow off k i s)) \<longleftrightarrow>
           (\<exists>insn \<in> set b'. \<exists>s op v. Instruction.stack insn = Some s
               \<and> ArgOperand op \<in> set (operands insn) \<and> variant op = Some v
               \<and> Variant.type v = Local \<and> s < Variant.index v))
       \<and> (fst (get_basic_blocks f) = Inr (ObjBlocks m) \<longleftrightarrow>
           (\<forall>insn \<in> set b'. \<forall>s op v. Instruction.stack insn = Some s
               \<and> ArgOperand op \<in> set (operands insn) \<and> variant op = Some v
               \<and> Variant.type v = Local \<longrightarrow> Variant.index v \<le> s))"
proof (cases "validate b'")
  case None
  then have ok: "fst (get_basic_blocks f) = Inr (ObjBlocks m)"
    using assms by (simp add: get_basic_blocks_def)
  from None have all: "\<forall>insn \<in> set b'. \<forall>s op v. Instruction.stack insn = Some s
               \<and> ArgOperand op \<in> set (operands insn) \<and> variant op = Some v
               \<and> Variant.type v = Local \<longrightarrow> Variant.index v \<le> s"
    by (simp only: validate_None)
  then have "\<not> (\<exists>insn \<in> set b'. \<exists>s op v. Instruction.stack insn = Some s
               \<and> ArgOperand op \<in> set (operands insn) \<and> variant op = Some v
               \<and> Variant.type v = Local \<and> s < Variant.index v)"
    by fastforce
  with ok all show ?thesis by simp
next
  case (Some e)
  then have err: "fst (get_basic_blocks f) = Inl e"
    using assms by (simp add: get_basic_blocks_def)
  from Some obtain off k i s where e: "e = StackUnderflow off k i s"
    using validate_Some by blast
  from Some have "validate b' \<noteq> None" by simp
  then have nall: "\<not> (\<forall>insn \<in> set b'. \<forall>s op v. Instruction.stack insn = Some s
               \<and> ArgOperand op \<in> set (operands insn) \<and> variant op = Some v
               \<and> Variant.type v = Local \<longrightarrow> Variant.index v \<le> s)"
    using validate_None [of b'] by simp
  then have ex: "\<exists>insn \<in> set b'. \<exists>s op v. Instruction.stack insn = Some s
               \<and> ArgOperand op \<in> set (operands insn) \<and> variant op = Some v
               \<and> Variant.type v = Local \<and> s < Variant.index v"
    by (meson not_le)
  from err e have "\<exists>off k i s. fst (get_basic_blocks f) = Inl (StackUnderflow off k i s)"
    by blast
  with err ex nall show ?thesis by simp
qed

text \<open>
  The theorem at \<open>underflow_body\<close>: the analysis reaches the validation with both
  instructions at depth 0, the first one names the local variable 2, and the call
  fails.
\<close>

theorem stack_validation_exact_witness:
  "bbs (mk_Function ''F0'' None (Some underflow_body) ObjNone ObjNone) = ObjNone
   \<and> Function.body (mk_Function ''F0'' None (Some underflow_body) ObjNone ObjNone)
       = Some underflow_body
   \<and> propagate underflow_body
       = (None,
          [(0, \<lparr>BasicBlock.offset = 0, stack = Some 0, body = [0, 1], sources = [],
                targets = []\<rparr>)],
          with_stacks underflow_body [Some 0, Some 0])
   \<and> (\<exists>off k i s. fst (get_basic_blocks (mk_Function ''F0'' None (Some underflow_body)
                          ObjNone ObjNone)) = Inl (StackUnderflow off k i s))
   \<and> fst (get_basic_blocks (mk_Function ''F0'' None (Some underflow_body) ObjNone ObjNone))
       \<noteq> Inr (ObjBlocks [(0, \<lparr>BasicBlock.offset = 0, stack = Some 0, body = [0, 1],
                                sources = [], targets = []\<rparr>)])"
proof -
  let ?f = "mk_Function ''F0'' None (Some underflow_body) ObjNone ObjNone"
  let ?m = "[(0, \<lparr>BasicBlock.offset = 0, stack = Some 0, body = [0, 1], sources = [],
                  targets = []\<rparr>)]"
  let ?b' = "with_stacks underflow_body [Some 0, Some 0]"
  have h1: "bbs ?f = ObjNone"
    by (simp add: mk_Function_def)
  have h2: "Function.body ?f = Some underflow_body"
    by (simp add: mk_Function_def)
  have h3: "propagate underflow_body = (None, ?m, ?b')"
    by code_simp
  have bad: "\<exists>insn \<in> set ?b'. \<exists>s op v. Instruction.stack insn = Some s
               \<and> ArgOperand op \<in> set (operands insn) \<and> variant op = Some v
               \<and> Variant.type v = Local \<and> s < Variant.index v"
    by (fastforce simp add: underflow_body_def mk_Instruction_def variant_operand_def
          mk_Variant_def)
  from stack_validation_exact [OF h1 h2 h3] bad
  have "(\<exists>off k i s. fst (get_basic_blocks ?f) = Inl (StackUnderflow off k i s))
      \<and> fst (get_basic_blocks ?f) \<noteq> Inr (ObjBlocks ?m)"
    by auto
  with h1 h2 h3 show ?thesis
    by simp
qed

text \<open>
  The claim C3 puts the failure at an index greater than or equal to the depth, and
  counts the sub-indices. In \<open>equal_depth_body\<close> the first instruction, at depth 0,
  names the local variable 0, and the second, at depth 1, the local variable 1 and, as
  the index of its second operand, the local variable 7. The analysis ends with these
  depths; the call does not fail and returns the block map.
\<close>

theorem stack_validation_counterexample:
  "propagate equal_depth_body
     = (None,
        [(0, \<lparr>BasicBlock.offset = 0, stack = Some 0, body = [0, 1, 2], sources = [],
              targets = []\<rparr>)],
        with_stacks equal_depth_body [Some 0, Some 1, Some 1])
   \<and> fst (get_basic_blocks (mk_Function ''F0'' None (Some equal_depth_body) ObjNone ObjNone))
       = Inr (ObjBlocks
                [(0, \<lparr>BasicBlock.offset = 0, stack = Some 0, body = [0, 1, 2], sources = [],
                      targets = []\<rparr>)])"
  by code_simp

subsection \<open>Block construction\<close>

lemma dict_get_update_block:
  "dict_get (update_block m k f) k' =
     (if k' = k then map_option f (dict_get m k') else dict_get m k')"
  by (induction m) (auto simp: update_block_def dict_get_def)

lemma dict_get_dict_set:
  "dict_get (dict_set m k v) k' = (if k' = k then Some v else dict_get m k')"
  by (induction m) (auto simp: dict_get_def)

lemma keys_add_mem: "k \<in> set (keys_add ks k)"
  by (simp add: keys_add_def)

text \<open>
  When the walk reaches a jump target that has no block, the new block becomes the
  current one, the block \<open>bb\<close> that was current gets the new block among its targets and
  is the one source of the new block. Nothing here depends on the instruction before:
  \<open>enter_block\<close> is not given it.
\<close>

lemma enter_block_links:
  assumes "dict_get m (Instruction.offset insn) = None" and "jumptarget insn"
    and "dict_get m bb = Some b"
  shows "enter_block insn m bb = (fst (enter_block insn m bb), Instruction.offset insn)
       \<and> dict_get (fst (enter_block insn m bb)) bb
           = Some (b\<lparr>targets := keys_add (targets b) (Instruction.offset insn)\<rparr>)
       \<and> dict_get (fst (enter_block insn m bb)) (Instruction.offset insn)
           = Some ((mk_BasicBlock (Instruction.offset insn))\<lparr>sources := [bb]\<rparr>)"
proof -
  from assms(1,3) have ne: "bb \<noteq> Instruction.offset insn"
    by auto
  with assms show ?thesis
    by (simp add: enter_block_def Let_def add_target_def add_source_def dict_get_update_block
        dict_get_dict_set keys_add_def mk_BasicBlock_def)
qed

text \<open>
  C6 (the code departs from the claim). In \<open>loop_body\<close> the instruction at offset 0 is an
  unconditional jump to 6, and the instruction at offset 5 is a jump target that has no
  block when the walk reaches it. The walk starts block 5 there and links block 0 to it
  all the same: block 0 ends with the targets 6 and 5, and block 5 has the sources 0
  and 6. The claim allows the link only after an instruction that does not hard-branch,
  as the code has it for the fall-through of a branch instruction.
\<close>

theorem fallthrough_link_after_jump:
  "jumps (loop_body ! 0)
   \<and> fst (get_basic_blocks (mk_Function ''F0'' None (Some loop_body) ObjNone ObjNone))
       = Inr (ObjBlocks
                [(0, \<lparr>BasicBlock.offset = 0, stack = Some 0, body = [0], sources = [],
                      targets = [6, 5]\<rparr>),
                 (6, \<lparr>BasicBlock.offset = 6, stack = Some 0, body = [2], sources = [0],
                      targets = [5, 11]\<rparr>),
                 (5, \<lparr>BasicBlock.offset = 5, stack = Some 0, body = [1], sources = [0, 6],
                      targets = []\<rparr>),
                 (11, \<lparr>BasicBlock.offset = 11, stack = Some 0, body = [3], sources = [6],
                       targets = []\<rparr>)])"
  by code_simp

subsection \<open>The entry block\<close>

text \<open>
  Every phase of the analysis keeps the entry block: blocks are only added under keys
  that are not there yet, block bodies only grow, and only blocks with an empty body
  are deleted.
\<close>

lemma update_block_keys: "map fst (update_block m k f) = map fst m"
  by (induction m) (auto simp: update_block_def)

lemma update_block_elem:
  assumes "kb \<in> set (update_block m k f)"
  shows "\<exists>kb' \<in> set m. fst kb = fst kb' \<and> (snd kb = snd kb' \<or> snd kb = f (snd kb'))"
proof -
  from assms have "kb \<in> (\<lambda>kb. if fst kb = k then (fst kb, f (snd kb)) else kb) ` set m"
    by (simp add: update_block_def)
  then obtain kb' where "kb' \<in> set m"
    and "kb = (if fst kb' = k then (fst kb', f (snd kb')) else kb')"
    by blast
  then show ?thesis
    by (cases "fst kb' = k") auto
qed

lemma entry_block_update:
  assumes "entry_block m"
    and "\<And>b. 0 \<in> set (BasicBlock.body b) \<Longrightarrow> 0 \<in> set (BasicBlock.body (f b))"
  shows "entry_block (update_block m k f)"
proof -
  have "fst ` set (update_block m k f) = fst ` set m"
    using update_block_keys [of m k f] by (metis list.set_map)
  with assms(1) have "0 \<in> fst ` set (update_block m k f)"
    by (simp add: entry_block_def)
  moreover have "0 \<in> set (BasicBlock.body (snd kb))"
    if "kb \<in> set (update_block m k f)" and "fst kb = 0" for kb
  proof -
    from that(1) obtain kb' where kb': "kb' \<in> set m" "fst kb = fst kb'"
      "snd kb = snd kb' \<or> snd kb = f (snd kb')"
      using update_block_elem by blast
    with that(2) assms(1) have "0 \<in> set (BasicBlock.body (snd kb'))"
      by (simp add: entry_block_def)
    with kb'(3) assms(2) show ?thesis by auto
  qed
  ultimately show ?thesis
    by (simp add: entry_block_def)
qed

lemma set_dict_set:
  "set (dict_set m k v) \<subseteq> insert (k, v) (set m)"
  by (induction m) (auto split: if_splits)

lemma dict_set_keys:
  "map fst (dict_set m k v) = (if k \<in> set (map fst m) then map fst m else map fst m @ [k])"
  by (induction m) force+

lemma fst_set_dict_set:
  "fst ` set (dict_set m k v) = insert k (fst ` set m)"
proof -
  have "set (map fst (dict_set m k v)) = insert k (set (map fst m))"
    by (auto simp add: dict_set_keys simp del: set_map)
  then show ?thesis by simp
qed

lemma entry_block_dict_set:
  assumes "entry_block m" and "k \<noteq> 0"
  shows "entry_block (dict_set m k v)"
proof -
  have "0 \<in> fst ` set (dict_set m k v)"
    using assms by (simp add: fst_set_dict_set entry_block_def)
  moreover have "\<forall>kb \<in> set (dict_set m k v). fst kb = 0 \<longrightarrow> 0 \<in> set (BasicBlock.body (snd kb))"
    using assms set_dict_set [of m k v] by (auto simp: entry_block_def)
  ultimately show ?thesis by (simp add: entry_block_def)
qed

lemma dict_get_None_not_key:
  "dict_get m k = None \<Longrightarrow> k \<notin> fst ` set m"
  by (simp add: dict_get_def map_of_eq_None_iff)

lemma entry_block_key: "entry_block m \<Longrightarrow> dict_get m k = None \<Longrightarrow> k \<noteq> 0"
  using dict_get_None_not_key [of m k] by (auto simp: entry_block_def)

lemma entry_block_link_target:
  assumes "entry_block m"
  shows "entry_block (link_target bb t m)"
proof -
  have "entry_block (case dict_get m t of None \<Rightarrow> dict_set m t (mk_BasicBlock t) | Some bt \<Rightarrow> m)"
  proof (cases "dict_get m t")
    case None
    with assms have "t \<noteq> 0"
      by (auto dest: entry_block_key)
    with None assms show ?thesis by (simp add: entry_block_dict_set)
  next
    case (Some bt)
    with assms show ?thesis by simp
  qed
  then show ?thesis
    by (simp add: link_target_def Let_def add_target_def add_source_def entry_block_update)
qed

lemma entry_block_fold_link:
  "entry_block m \<Longrightarrow> entry_block (fold (link_target bb) ts m)"
  by (induction ts arbitrary: m) (simp_all add: entry_block_link_target)

lemma entry_block_enter:
  assumes "entry_block m"
  shows "entry_block (fst (enter_block insn m bb))"
proof (cases "dict_get m (Instruction.offset insn)")
  case None
  with assms have "Instruction.offset insn \<noteq> 0"
    by (auto dest: entry_block_key)
  with None assms show ?thesis
    by (simp add: enter_block_def Let_def add_target_def add_source_def entry_block_update
        entry_block_dict_set)
next
  case (Some b)
  with assms show ?thesis by (simp add: enter_block_def)
qed

lemma walk_step_shape:
  assumes "walk_step i insn m bb = (e, m', bb')"
  shows "\<exists>ts. m' = fold (link_target bb') ts
           (update_block (fst (enter_block insn m bb)) bb'
              (\<lambda>b. b\<lparr>BasicBlock.body := BasicBlock.body b @ [i]\<rparr>))
         \<and> bb' = snd (enter_block insn m bb)"
proof (cases "branches insn")
  case False
  with assms have "m' = fold (link_target bb') []
           (update_block (fst (enter_block insn m bb)) bb'
              (\<lambda>b. b\<lparr>BasicBlock.body := BasicBlock.body b @ [i]\<rparr>))
         \<and> bb' = snd (enter_block insn m bb)"
    by (auto simp: walk_step_def Let_def)
  then show ?thesis by blast
next
  case True
  show ?thesis
  proof (cases "successors insn")
    case (Inl err)
    with True assms have "m' = fold (link_target bb') []
           (update_block (fst (enter_block insn m bb)) bb'
              (\<lambda>b. b\<lparr>BasicBlock.body := BasicBlock.body b @ [i]\<rparr>))
         \<and> bb' = snd (enter_block insn m bb)"
      by (auto simp: walk_step_def Let_def)
    then show ?thesis by blast
  next
    case (Inr ts)
    with True assms have "m' = fold (link_target bb') ts
           (update_block (fst (enter_block insn m bb)) bb'
              (\<lambda>b. b\<lparr>BasicBlock.body := BasicBlock.body b @ [i]\<rparr>))
         \<and> bb' = snd (enter_block insn m bb)"
      by (auto simp: walk_step_def Let_def)
    then show ?thesis by blast
  qed
qed

lemma entry_block_walk_step:
  assumes "entry_block m" and "walk_step i insn m bb = (e, m', bb')"
  shows "entry_block m'"
proof -
  from walk_step_shape [OF assms(2)] obtain ts where
    "m' = fold (link_target bb') ts
           (update_block (fst (enter_block insn m bb)) bb'
              (\<lambda>b. b\<lparr>BasicBlock.body := BasicBlock.body b @ [i]\<rparr>))"
    by blast
  with assms(1) show ?thesis
    by (simp add: entry_block_fold_link entry_block_update entry_block_enter)
qed

lemma entry_block_walk:
  "entry_block m \<Longrightarrow> walk i b m bb = (None, m') \<Longrightarrow> entry_block m'"
proof (induction b arbitrary: i m bb)
  case Nil
  then show ?case by simp
next
  case (Cons insn rest)
  obtain e m1 bb1 where step: "walk_step i insn m bb = (e, m1, bb1)"
    by (cases "walk_step i insn m bb") auto
  with Cons.prems have "e = None" and "walk (i + 1) rest m1 bb1 = (None, m')"
    by (auto split: option.splits)
  moreover from step Cons.prems(1) have "entry_block m1"
    by (rule entry_block_walk_step [rotated])
  ultimately show ?case
    using Cons.IH by blast
qed


lemma entry_block_drop_block:
  assumes "entry_block m" and "BasicBlock.body (snd kb) = [] \<longrightarrow> fst kb \<noteq> 0"
  shows "entry_block (drop_block kb m)"
proof (cases "BasicBlock.body (snd kb) \<noteq> []")
  case True
  with assms show ?thesis by (simp add: drop_block_def)
next
  case False
  with assms(2) have k: "fst kb \<noteq> 0" by simp
  have del: "entry_block (dict_del m (fst kb))"
    using assms(1) k by (auto simp: entry_block_def dict_del_def)
  have "entry_block (fold (\<lambda>s m'. update_block m' s (\<lambda>b. b\<lparr>targets := removeAll (fst kb) (targets b)\<rparr>)) ss m0)"
    if "entry_block m0" for ss m0
    using that by (induction ss arbitrary: m0) (simp_all add: entry_block_update)
  with del False show ?thesis
    by (simp add: drop_block_def)
qed

lemma entry_block_fold_drop:
  assumes "entry_block snap" and "set xs \<subseteq> set snap" and "entry_block m"
  shows "entry_block (fold drop_block xs m)"
  using assms(2,3)
proof (induction xs arbitrary: m)
  case Nil
  then show ?case by simp
next
  case (Cons kb xs)
  from Cons.prems(1) assms(1) have "BasicBlock.body (snd kb) = [] \<longrightarrow> fst kb \<noteq> 0"
    by (auto simp: entry_block_def)
  with Cons.prems(2) have "entry_block (drop_block kb m)"
    by (rule entry_block_drop_block)
  with Cons show ?case by simp
qed

lemma entry_block_drop_empty: "entry_block m \<Longrightarrow> entry_block (drop_empty m)"
  by (simp add: drop_empty_def entry_block_fold_drop [of m m m])

lemma entry_block_trace_stack:
  "entry_block (blocks st) \<Longrightarrow> trace_stack calls st = (e, st') \<Longrightarrow> entry_block (blocks st')"
proof (induction calls st rule: trace_stack.induct)
  case (1 st)
  then show ?case by (simp add: trace_stack.simps)
next
  case (2 off stk calls st)
  show ?case
  proof (cases "off \<in> errored st")
    case True
    with 2 show ?thesis by (simp add: trace_stack.simps)
  next
    case False
    show ?thesis
    proof (cases "dict_get (blocks st) off")
      case None
      with False 2 show ?thesis by (simp add: trace_stack.simps)
    next
      case (Some bb)
      show ?thesis
      proof (cases "if BasicBlock.stack bb \<noteq> None \<and> stk \<noteq> BasicBlock.stack bb then None else stk")
        case None
        have "entry_block (update_block (blocks st) off (\<lambda>b. b\<lparr>BasicBlock.stack := None\<rparr>))"
          using "2.prems"(1) by (simp add: entry_block_update)
        with "2.IH"(2) [OF False Some None] "2.prems"(2) False Some None show ?thesis
          by (simp add: trace_stack.simps)
      next
        case (Some s)
        note s = this
        show ?thesis
        proof (cases "off \<in> visited st")
          case True
          with "2.IH"(3) [OF False \<open>dict_get (blocks st) off = Some bb\<close> s True] "2.prems" False
            \<open>dict_get (blocks st) off = Some bb\<close> s
          show ?thesis by (simp add: trace_stack.simps)
        next
          case nv: False
          have "entry_block (update_block (blocks st) off (\<lambda>b. b\<lparr>BasicBlock.stack := Some s\<rparr>))"
            using "2.prems"(1) by (simp add: entry_block_update)
          with "2.IH"(4) [OF False \<open>dict_get (blocks st) off = Some bb\<close> s nv] "2.prems"(2) False
            \<open>dict_get (blocks st) off = Some bb\<close> s nv
          show ?thesis by (simp add: trace_stack.simps)
        qed
      qed
    qed
  qed
qed

lemma entry_block_lookup:
  assumes "entry_block m"
  shows "\<exists>bb. dict_get m 0 = Some bb \<and> 0 \<in> set (BasicBlock.body bb)"
proof -
  from assms have "0 \<in> fst ` set m" by (simp add: entry_block_def)
  then obtain bb where bb: "map_of m 0 = Some bb"
    by (metis map_of_eq_None_iff not_Some_eq)
  then have "(0, bb) \<in> set m" by (rule map_of_SomeD)
  with assms have "0 \<in> set (BasicBlock.body bb)" by (auto simp: entry_block_def)
  with bb show ?thesis by (simp add: dict_get_def)
qed

text \<open>
  A function with no cached object in \<open>_bbs\<close> whose body starts with an instruction at
  offset 0 (the decoder starts every body there): when \<open>get_basic_blocks\<close> returns, it
  returns a block map whose block 0 holds that instruction.
\<close>

lemma get_basic_blocks_entry_block:
  assumes "bbs f = ObjNone" and "Function.body f = Some (insn # rest)"
    and "Instruction.offset insn = 0"
    and "fst (get_basic_blocks f) = Inr r"
  shows "\<exists>m bb. r = ObjBlocks m \<and> dict_get m 0 = Some bb \<and> 0 \<in> set (BasicBlock.body bb)"
proof -
  obtain e m b' where p: "propagate (insn # rest) = (e, m, b')"
    by (cases "propagate (insn # rest)") auto
  with assms have e: "e = None" and r: "r = ObjBlocks m"
    by (auto simp: get_basic_blocks_def split: option.splits)
  obtain e1 m1 bb1 where step: "walk_step 0 insn [(0, mk_BasicBlock 0)] 0 = (e1, m1, bb1)"
    by (cases "walk_step 0 insn [(0, mk_BasicBlock 0)] 0") auto
  have enter: "enter_block insn [(0, mk_BasicBlock 0)] 0 = ([(0, mk_BasicBlock 0)], 0)"
    using assms(3) by (simp add: enter_block_def dict_get_def)
  from walk_step_shape [OF step] obtain ts where
    "m1 = fold (link_target bb1) ts
           (update_block [(0, mk_BasicBlock 0)] bb1
              (\<lambda>b. b\<lparr>BasicBlock.body := BasicBlock.body b @ [0]\<rparr>))"
    and "bb1 = 0"
    by (auto simp: enter)
  moreover have "entry_block (update_block [(0, mk_BasicBlock 0)] 0
      (\<lambda>b. b\<lparr>BasicBlock.body := BasicBlock.body b @ [0]\<rparr>))"
    by (simp add: entry_block_def update_block_def)
  ultimately have m1: "entry_block m1"
    by (simp add: entry_block_fold_link)
  obtain e2 m2 where w: "walk 0 (insn # rest) [(0, mk_BasicBlock 0)] 0 = (e2, m2)"
    by (cases "walk 0 (insn # rest) [(0, mk_BasicBlock 0)] 0") auto
  with p e have e2: "e2 = None"
    by (auto simp: propagate_def split: option.splits prod.splits)
  with w step have "e1 = None" and "walk 1 rest m1 bb1 = (None, m2)"
    by (auto split: option.splits)
  with m1 have "entry_block m2"
    using entry_block_walk by blast
  then have "entry_block (drop_empty m2)"
    by (rule entry_block_drop_empty)
  moreover from p w e2 obtain st' where
    "trace_stack [(0, Some 0)] \<lparr>blocks = drop_empty m2, insns = insn # rest, visited = {}, errored = {}\<rparr> = (e, st')"
    and "m = blocks st'"
    by (auto simp: propagate_def split: prod.splits)
  ultimately have "entry_block m"
    using entry_block_trace_stack [of "\<lparr>blocks = drop_empty m2, insns = insn # rest, visited = {}, errored = {}\<rparr>"]
    by simp
  with r show ?thesis
    using entry_block_lookup by blast
qed

subsection \<open>The block map of a loaded function\<close>

text \<open>
  A function that \<open>_load_functions\<close> loads from an entry with the flag \<open>HasAttrs\<close> has
  its attribute list in the field \<open>_bbs\<close> (and the exported flag in \<open>attributes\<close>):
  \<open>get_basic_blocks\<close> finds \<open>_bbs\<close> set and returns the attribute list.
\<close>

lemma load_function_HasAttrs:
  assumes "FTag_check FTag_HasAttrs (tags e)" and "load_function types w k v e = Inr (f, v')"
  shows "get_basic_blocks f = (Inr (ObjAttributes (attrs e)), f)"
proof -
  from assms have "bbs f = ObjAttributes (attrs e)"
    by (auto simp: load_function_def mk_Function_def Let_def split: if_splits sum.splits)
  then show ?thesis
    by (simp add: get_basic_blocks_def)
qed

text \<open>
  C1 (the code departs from the claim). Entry 0 of a function table, internal and not
  exported, with the flag byte 4 (\<open>HasAttrs\<close>), a body of the one instruction \<open>Ret\<close> at
  offset 0 and an empty attribute block: the function is loaded with \<open>_bbs = []\<close>, the
  attribute list, and \<open>get_basic_blocks\<close> returns this list, which holds no block. The
  same entry with the flag byte 0 gets the block map with block 0 holding the
  instruction at offset 0.
\<close>

theorem get_basic_blocks_returns_attributes:
  "load_function [] 1 0 False (internal_entry 4 ret_body [])
     = Inr (mk_Function ''F0'' None (Some ret_body) (ObjBool False) (ObjAttributes []), False)
   \<and> fst (get_basic_blocks
            (mk_Function ''F0'' None (Some ret_body) (ObjBool False) (ObjAttributes [])))
       = Inr (ObjAttributes [])
   \<and> load_function [] 1 0 False (internal_entry 0 ret_body [])
       = Inr (mk_Function ''F0'' None (Some ret_body) (ObjBool False) ObjNone, False)
   \<and> fst (get_basic_blocks (mk_Function ''F0'' None (Some ret_body) (ObjBool False) ObjNone))
       = Inr (ObjBlocks
                [(0, \<lparr>BasicBlock.offset = 0, stack = Some 0, body = [0], sources = [],
                      targets = []\<rparr>)])"
  by code_simp

end
